theory Spec2Isabelle
  imports Complex_Main
begin

section \<open>Python values: exceptions and numpy arrays\<close>

text \<open>
  The message carried by a failed \<^verbatim>\<open>assert cond, msg\<close>: nothing, a scalar, an integer
  array, an array shape, or the f-string \<^verbatim>\<open>neids=.. nregion=..\<close>.
\<close>

datatype message =
  NoMessage
| Scalar int
| Array "int list"
| Shape nat nat
| Neids_nregion nat nat

text \<open>
  The exceptions of the loader. \<open>ValueError\<close> is what numpy raises for the minimum or
  maximum of an empty array, for \<^verbatim>\<open>hstack\<close> of an empty list and for an assignment of
  the wrong length; \<open>IndexError\<close> is a column index out of range. \<open>ConversionError\<close>
  is the failure of the unit utilities (an unrecognised unit name).
\<close>

datatype error =
  AssertionError message
| ValueError
| IndexError
| ConversionError

definition ebind :: "error + 'a \<Rightarrow> ('a \<Rightarrow> error + 'b) \<Rightarrow> error + 'b" where
  "ebind m f = (case m of Inl e \<Rightarrow> Inl e | Inr x \<Rightarrow> f x)"

definition py_assert :: "bool \<Rightarrow> message \<Rightarrow> error + unit" where
  "py_assert c msg = (if c then Inr () else Inl (AssertionError msg))"

text \<open>
  A two-dimensional numpy array: its column count \<^verbatim>\<open>shape[1]\<close> (which an array without
  rows still has) and its rows. Numpy arrays are rectangular: \<open>rect\<close>.
\<close>

record 'a array2 =
  ncols :: nat
  rows :: "'a list list"

definition rect :: "'a array2 \<Rightarrow> bool" where
  "rect a = list_all (\<lambda>r. length r = ncols a) (rows a)"

definition nrows :: "'a array2 \<Rightarrow> nat" where
  "nrows a = length (rows a)"

text \<open>\<^verbatim>\<open>a[:, j:]\<close>\<close>

definition cols_from :: "nat \<Rightarrow> 'a array2 \<Rightarrow> 'a array2" where
  "cols_from j a = \<lparr>ncols = ncols a - j, rows = map (drop j) (rows a)\<rparr>"

text \<open>\<^verbatim>\<open>a.ravel()\<close>\<close>

definition ravel :: "'a array2 \<Rightarrow> 'a list" where
  "ravel a = concat (rows a)"

text \<open>\<^verbatim>\<open>a[:, j]\<close>\<close>

definition column :: "'a array2 \<Rightarrow> nat \<Rightarrow> error + 'a list" where
  "column a j = (if j < ncols a then Inr (map (\<lambda>r. r ! j) (rows a)) else Inl IndexError)"

text \<open>
  \<^verbatim>\<open>a[:, j] = vs\<close> for a one-dimensional \<open>vs\<close>: one value per row, or a single value
  broadcast to every row.
\<close>

definition set_column :: "'a array2 \<Rightarrow> nat \<Rightarrow> 'a list \<Rightarrow> error + 'a array2" where
  "set_column a j vs =
     (if \<not> j < ncols a then Inl IndexError
      else if length vs = nrows a then
        Inr (a\<lparr>rows := map (\<lambda>(r, v). r[j := v]) (zip (rows a) vs)\<rparr>)
      else (case vs of
              [v] \<Rightarrow> Inr (a\<lparr>rows := map (\<lambda>r. r[j := v]) (rows a)\<rparr>)
            | _ \<Rightarrow> Inl ValueError))"

text \<open>\<^verbatim>\<open>a.min()\<close> of a one-dimensional array\<close>

fun amin :: "int list \<Rightarrow> error + int" where
  "amin [] = Inl ValueError"
| "amin (x # xs) = Inr (fold min xs x)"

text \<open>\<^verbatim>\<open>np.unique(a)\<close>: the sorted distinct values\<close>

definition unique :: "int list \<Rightarrow> int list" where
  "unique xs = remdups (sort xs)"

text \<open>\<^verbatim>\<open>np.setdiff1d(a, b)\<close>: the sorted distinct values of \<open>a\<close> that are not in \<open>b\<close>\<close>

definition setdiff1d :: "int list \<Rightarrow> int list \<Rightarrow> int list" where
  "setdiff1d a b = filter (\<lambda>n. n \<notin> set b) (unique a)"

text \<open>\<^verbatim>\<open>np.hstack(list_of_arrays)\<close> of one-dimensional arrays\<close>

definition hstack :: "'a list list \<Rightarrow> error + 'a list" where
  "hstack xss = (if xss = [] then Inl ValueError else Inr (concat xss))"

section \<open>The connectivity packer: \<^verbatim>\<open>_create_elements\<close>\<close>

text \<open>
  \<^verbatim>\<open>create_offset_arrays(all_nid, element_nodes, nelement, cell_type, cell_offset0, dnode)\<close>
  returns \<^verbatim>\<open>(cell_offset0, n_nodesi, cell_typei, cell_offseti)\<close>; the caller ravels
  \<open>n_nodesi\<close>.
\<close>

type_synonym offset_arrays = "int \<times> int array2 \<times> int list \<times> int list"

type_synonym packer =
  "int list \<Rightarrow> int array2 \<Rightarrow> nat \<Rightarrow> int \<Rightarrow> int \<Rightarrow> int \<Rightarrow> error + offset_arrays"

text \<open>The arguments \<^verbatim>\<open>_create_elements\<close> hands to \<^verbatim>\<open>build_vtk_geometry\<close>.\<close>

record vtk_geometry =
  nelement :: nat
  n_nodes :: "int list"
  cell_type :: "int list"
  cell_offset :: "int list"

text \<open>
  The running state of \<^verbatim>\<open>_create_elements\<close>:
  \<^verbatim>\<open>(cell_offset0, n_nodes_list, cell_type_list, cell_offset_list)\<close>.
\<close>

type_synonym pack_state = "int \<times> int list list \<times> int list list \<times> int list list"

text \<open>
  The body of \<^verbatim>\<open>if nquad:\<close> and of \<^verbatim>\<open>if ntri:\<close>, which differ in the node table, the
  count, the cell type and \<open>dnode\<close> only.
\<close>

definition add_group ::
  "packer \<Rightarrow> int list \<Rightarrow> int array2 \<Rightarrow> nat \<Rightarrow> int \<Rightarrow> int \<Rightarrow> pack_state \<Rightarrow> error + pack_state" where
  "add_group coa node_id nodes n ctype dnode st =
     (case st of (cell_offset0, n_nodes_list, cell_type_list, cell_offset_list) \<Rightarrow>
        if n \<noteq> 0 then
          ebind (coa node_id nodes n ctype cell_offset0 dnode)
            (\<lambda>(cell_offset0', n_nodesi, cell_typei, cell_offseti).
               Inr (cell_offset0',
                    n_nodes_list @ [ravel n_nodesi],
                    cell_type_list @ [cell_typei],
                    cell_offset_list @ [cell_offseti]))
        else Inr st)"

text \<open>
  \<^verbatim>\<open>_create_elements(ugrid, node_id, tris, quads)\<close>, with \<^verbatim>\<open>create_offset_arrays\<close> as the
  parameter \<open>coa\<close>. The result is what reaches \<^verbatim>\<open>build_vtk_geometry\<close>.
\<close>

definition create_elements_with ::
  "packer \<Rightarrow> int list \<Rightarrow> int array2 \<Rightarrow> int array2 \<Rightarrow> error + vtk_geometry" where
  "create_elements_with coa node_id tris quads =
     (let nquad = nrows quads;
          ntri = nrows tris;
          nelement_total = nquad + ntri;
          cell_offset0 = 0
      in
      ebind (py_assert (ncols tris = 5) (Shape (nrows tris) (ncols tris))) (\<lambda>_.
      ebind (py_assert (ncols quads = 6) (Shape (nrows quads) (ncols quads))) (\<lambda>_.
      let tri_nodes = cols_from 2 tris;
          quad_nodes = cols_from 2 quads
      in
      ebind (py_assert (ncols tri_nodes = 3) (Shape (nrows tri_nodes) (ncols tri_nodes))) (\<lambda>_.
      ebind (py_assert (ncols quad_nodes = 4) (Shape (nrows quad_nodes) (ncols quad_nodes))) (\<lambda>_.
      ebind (amin node_id) (\<lambda>node_id_min.
      ebind (py_assert (node_id_min \<ge> 1) (Scalar node_id_min)) (\<lambda>_.
      let all_nodes = unique (ravel tri_nodes @ ravel quad_nodes) in
      ebind (amin all_nodes) (\<lambda>all_nodes_min.
      ebind (py_assert (all_nodes_min \<ge> 1) (Scalar all_nodes_min)) (\<lambda>_.
      let missing_nodes = setdiff1d all_nodes node_id in
      ebind (py_assert (length missing_nodes = 0) (Array missing_nodes)) (\<lambda>_.
      ebind (add_group coa node_id quad_nodes nquad 9 4 (cell_offset0, [], [], [])) (\<lambda>st1.
      ebind (add_group coa node_id tri_nodes ntri 5 3 st1)
        (\<lambda>(cell_offset0', n_nodes_list, cell_type_list, cell_offset_list).
      ebind (hstack n_nodes_list) (\<lambda>n_nodes.
      ebind (hstack cell_type_list) (\<lambda>cell_type.
      ebind (hstack cell_offset_list) (\<lambda>cell_offset.
      Inr \<lparr>nelement = nelement_total, n_nodes = n_nodes,
           cell_type = cell_type, cell_offset = cell_offset\<rparr>)))))))))))))))"

text \<open>
  Modelled from the spec: \<^verbatim>\<open>create_offset_arrays\<close> of
  \<^verbatim>\<open>pyNastran.gui.utils.vtk.vectorized_geometry\<close>, which is not among the sources. For a
  shape group of \<open>n\<close> elements with \<open>d\<close> nodes each it emits \<open>n\<close> entries of the constant
  node count \<open>d\<close> (one per row, ravelled by the caller), \<open>n\<close> entries of the constant
  shape-type code, and a running cumulative offset sequence where entry \<open>i\<close> is the prior
  cumulative total plus \<open>d\<close>; the counter it returns continues the stream in the next
  group.
\<close>

definition create_offset_arrays :: packer where
  "create_offset_arrays all_nid element_nodes n ctype cell_offset0 dnode =
     Inr (cell_offset0 + int n * dnode,
          \<lparr>ncols = 1, rows = replicate n [dnode]\<rparr>,
          replicate n ctype,
          map (\<lambda>i. cell_offset0 + (int i + 1) * dnode) [0..<n])"

definition create_elements :: "int list \<Rightarrow> int array2 \<Rightarrow> int array2 \<Rightarrow> error + vtk_geometry" where
  "create_elements = create_elements_with create_offset_arrays"

text \<open>
  Modelled from the spec: the node-id to local-index lookup and the flat node-index array
  of the packed connectivity, which \<^verbatim>\<open>_create_elements\<close> does not hold as a value of its
  own (they belong to the absent \<^verbatim>\<open>vectorized_geometry\<close> helpers). The lookup is built
  once from the node set; every raw node id of the face tables is translated to its local
  0-based index, quadrilaterals first; an id absent from the node set has no index.
\<close>

definition node_id_to_local_index :: "int list \<Rightarrow> (int \<rightharpoonup> nat)" where
  "node_id_to_local_index node_id = map_of (zip node_id [0..<length node_id])"

fun translate :: "(int \<rightharpoonup> nat) \<Rightarrow> int list \<Rightarrow> nat list option" where
  "translate m [] = Some []"
| "translate m (n # ns) =
     (case m n of None \<Rightarrow> None
      | Some i \<Rightarrow> (case translate m ns of None \<Rightarrow> None | Some is \<Rightarrow> Some (i # is)))"

definition flat_node_indices :: "int list \<Rightarrow> int array2 \<Rightarrow> int array2 \<Rightarrow> nat list option" where
  "flat_node_indices node_id tris quads =
     translate (node_id_to_local_index node_id)
       (ravel (cols_from 2 quads) @ ravel (cols_from 2 tris))"

section \<open>The field assembler: \<^verbatim>\<open>_fill_fluent_case\<close>\<close>

type_synonym vec = "real \<times> real \<times> real"

text \<open>
  A float with its non-finite values. The loader computes on the areas only, with
  \<^verbatim>\<open>area*0+4\<close> and \<^verbatim>\<open>area*0+3\<close>: a finite float times 0 is a zero and the sum is the
  constant, exactly; an infinity times 0 is NaN, and NaN stays NaN. The float arrays that
  the loader hands on as they are hold reals.
\<close>

datatype float64 = Finite real | PosInf | NegInf | NaN

fun times_zero_plus :: "real \<Rightarrow> float64 \<Rightarrow> float64" where
  "times_zero_plus k (Finite a) = Finite (a * 0 + k)"
| "times_zero_plus k PosInf = NaN"
| "times_zero_plus k NegInf = NaN"
| "times_zero_plus k NaN = NaN"

datatype scalar = IntArray "int list" | RealArray "real list" | FloatArray "float64 list"

text \<open>
  The result objects, as the arguments their constructors are called with:
  \<^verbatim>\<open>GuiResult(subcase_id, header, title, location, scalar, data_format, colormap, uname)\<close>
  (a keyword that is not given is \<open>None\<close>) and
  \<^verbatim>\<open>NormalResult(subcase_id, header, title, nlabels, labelsize, ncolors, data_format, uname)\<close>.
\<close>

datatype gui_result =
  GuiResult int string string string scalar "string option" "string option" "string option"
| NormalResult int string string nat nat nat string string

text \<open>A sidebar entry \<^verbatim>\<open>(name, icase, [])\<close>.\<close>

datatype form_entry = Form string nat "form_entry list"

text \<open>A value of the \<^verbatim>\<open>cases\<close> dictionary: \<^verbatim>\<open>(result, (itime, name))\<close>.\<close>

type_synonym case_entry = "gui_result \<times> nat \<times> string"

type_synonym case_dict = "nat \<rightharpoonup> case_entry"


text \<open>
  The loop \<^verbatim>\<open>for i, title in enumerate(titles[1:])\<close> over the state
  \<^verbatim>\<open>(form, cases, icase)\<close>; \<open>itime\<close> is 0.
\<close>

fun imported_fields ::
  "int \<Rightarrow> int list \<Rightarrow> real array2 \<Rightarrow> (nat \<times> string) list \<Rightarrow>
   form_entry list \<times> case_dict \<times> nat \<Rightarrow> error + form_entry list \<times> case_dict \<times> nat" where
  "imported_fields ID element_ids res [] st = Inr st"
| "imported_fields ID element_ids res ((i, title) # rest) (form, cases, icase) =
     ebind (column res i) (\<lambda>result.
     ebind (py_assert (length element_ids = length result) NoMessage) (\<lambda>_.
     let pressure_res = GuiResult ID title title ''centroid'' (RealArray result) None None None
     in imported_fields ID element_ids res rest
          (form @ [Form title icase []],
           cases(icase \<mapsto> (pressure_res, (0, title))),
           icase + 1)))"

definition fill_fluent_case ::
  "case_dict \<Rightarrow> int \<Rightarrow> int list \<Rightarrow> int list \<Rightarrow> int list \<Rightarrow> real array2 \<Rightarrow> string list \<Rightarrow>
   vec list \<Rightarrow> float64 list \<Rightarrow> error + form_entry list \<times> case_dict" where
  "fill_fluent_case cases ID node_ids element_ids region res ttls normal nnodes_array =
     (let icase = 0;
          itime = 0;
          colormap = ''jet'';
          nid_res = GuiResult ID ''NodeID'' ''NodeID'' ''node'' (IntArray node_ids) None None None;
          eid_res = GuiResult ID ''ElementID'' ''ElementID'' ''centroid'' (IntArray element_ids)
                      None None None;
          region_res = GuiResult ID ''Region'' ''Region'' ''centroid'' (IntArray region)
                         None None None;
          nxyz_res = NormalResult 0 ''Normals'' ''Normals'' 2 5 2 ''%.1f'' ''NormalResult'';
          nx_res = GuiResult ID ''normal_x'' ''NormalX'' ''centroid''
                     (RealArray (map (\<lambda>(x, y, z). x) normal))
                     (Some ''%.3f'') (Some colormap) (Some ''NormalX'');
          ny_res = GuiResult ID ''normal_y'' ''NormalY'' ''centroid''
                     (RealArray (map (\<lambda>(x, y, z). y) normal))
                     (Some ''%.3f'') (Some colormap) (Some ''NormalY'');
          nz_res = GuiResult ID ''normal_z'' ''NormalZ'' ''centroid''
                     (RealArray (map (\<lambda>(x, y, z). z) normal))
                     (Some ''%.3f'') (Some colormap) (Some ''NormalZ'');
          nnodes_res = GuiResult ID ''nnodes'' ''Nnodes'' ''centroid'' (FloatArray nnodes_array)
                         (Some ''%.0f'') (Some colormap) (Some ''Nnodes'')
      in
      ebind (py_assert (length element_ids = length region)
               (Neids_nregion (length element_ids) (length region))) (\<lambda>_.
      let cases1 = cases
            (icase \<mapsto> (nid_res, (itime, ''NodeID'')),
             icase + 1 \<mapsto> (eid_res, (itime, ''ElementID'')),
             icase + 2 \<mapsto> (region_res, (itime, ''Region'')),
             icase + 3 \<mapsto> (nxyz_res, (itime, ''Normal'')),
             icase + 4 \<mapsto> (nx_res, (itime, ''NormalX'')),
             icase + 5 \<mapsto> (ny_res, (itime, ''NormalY'')),
             icase + 6 \<mapsto> (nz_res, (itime, ''NormalZ'')),
             icase + 7 \<mapsto> (nnodes_res, (itime, ''Nnodes'')));
          form = [Form ''NodeID'' icase [],
                  Form ''ElementID'' (icase + 1) [],
                  Form ''Region'' (icase + 2) [],
                  Form ''Normal'' (icase + 3) [],
                  Form ''NormalX'' (icase + 4) [],
                  Form ''NormalY'' (icase + 5) [],
                  Form ''NormalZ'' (icase + 6) [],
                  Form ''Nnodes'' (icase + 7) []]
      in
      ebind (imported_fields ID element_ids res (enumerate 0 (drop 1 ttls))
               (form, cases1, icase + 8))
        (\<lambda>(form', cases', icase'). Inr (form', cases'))))"

section \<open>The region filter and the geometry derivation\<close>

text \<open>
  What \<^verbatim>\<open>read_fluent\<close> yields: the node ids and coordinates, the declared field titles,
  the face tables with rows \<^verbatim>\<open>(element_id, region_id, node_id...)\<close> and the per-element
  results.
\<close>

record fluent =
  model_node_id :: "int list"
  model_xyz :: "vec list"
  model_titles :: "string list"
  model_tris :: "int array2"
  model_quads :: "int array2"
  model_results :: "real array2"

text \<open>\<^verbatim>\<open>gui.settings.other_settings\<close>\<close>

record other_settings =
  cart3d_fluent_remove :: "int list"
  cart3d_fluent_include :: "int list"

text \<open>\<^verbatim>\<open>(element_id, tris, quads, region, results)\<close>\<close>

type_synonym filtered_data = "int list \<times> int array2 \<times> int array2 \<times> int list \<times> real array2"

text \<open>
  \<^verbatim>\<open>(tri_area, quad_area, tri_centroid, quad_centroid, tri_normal, quad_normal)\<close>; the
  centroids and normals are arrays of three columns.
\<close>

type_synonym area_centroid_normal =
  "float64 list \<times> float64 list \<times> vec list \<times> vec list \<times> vec list \<times> vec list"

text \<open>The region tag and the element id of a face row; a row too short has none.\<close>

fun region_tag :: "int list \<Rightarrow> int option" where
  "region_tag (eid # rid # ns) = Some rid"
| "region_tag row = None"

fun face_ids :: "int list list \<Rightarrow> int list" where
  "face_ids [] = []"
| "face_ids ([] # faces) = face_ids faces"
| "face_ids ((eid # row) # faces) = eid # face_ids faces"

fun face_regions :: "int list list \<Rightarrow> int list" where
  "face_regions [] = []"
| "face_regions (face # faces) =
     (case region_tag face of None \<Rightarrow> face_regions faces
      | Some rid \<Rightarrow> rid # face_regions faces)"

text \<open>
  Modelled from the spec: the Region Filter \<^verbatim>\<open>filter(faces, regions_to_remove,
  regions_to_include)\<close>, which lives in the Fluent model class that is not among the
  sources. If \<open>regions_to_include\<close> is non-empty, keep only faces whose region tag is in
  that set, and \<open>regions_to_remove\<close> is ignored; else if \<open>regions_to_remove\<close> is
  non-empty, keep all faces whose region tag is not in that set; else keep all faces. The
  filter is stable.
\<close>

definition keep_face :: "int list \<Rightarrow> int list \<Rightarrow> int list \<Rightarrow> bool" where
  "keep_face regions_to_remove regions_to_include face =
     (if regions_to_include \<noteq> [] then
        (case region_tag face of None \<Rightarrow> False | Some r \<Rightarrow> r \<in> set regions_to_include)
      else if regions_to_remove \<noteq> [] then
        (case region_tag face of None \<Rightarrow> True | Some r \<Rightarrow> r \<notin> set regions_to_remove)
      else True)"

definition filter_faces :: "int list list \<Rightarrow> int list \<Rightarrow> int list \<Rightarrow> int list list" where
  "filter_faces faces regions_to_remove regions_to_include =
     filter (keep_face regions_to_remove regions_to_include) faces"

text \<open>
  Modelled from the spec: \<^verbatim>\<open>get_filtered_data\<close> of the Fluent model class, which is not
  among the sources. Each shape group is filtered on its own; the element-id array is the
  quadrilateral ids followed by the triangle ids, and the region array follows the same
  order. The rows of the results are aligned to the pre-filter element ordering, read here
  as the same shape-group order (all quadrilaterals, then all triangles); the rows of the
  surviving faces are kept.
\<close>

definition get_filtered_data :: "fluent \<Rightarrow> int list \<Rightarrow> int list \<Rightarrow> error + filtered_data" where
  "get_filtered_data model regions_to_remove regions_to_include =
     (let all_quads = model_quads model;
          all_tris = model_tris model;
          all_results = model_results model;
          keep = keep_face regions_to_remove regions_to_include;
          quads = all_quads\<lparr>rows := filter_faces (rows all_quads) regions_to_remove regions_to_include\<rparr>;
          tris = all_tris\<lparr>rows := filter_faces (rows all_tris) regions_to_remove regions_to_include\<rparr>;
          element_id = face_ids (rows quads) @ face_ids (rows tris);
          region = face_regions (rows quads) @ face_regions (rows tris);
          res = all_results\<lparr>rows :=
                  map snd (filter (\<lambda>(face, row). keep face)
                             (zip (rows all_quads @ rows all_tris) (rows all_results)))\<rparr>
      in Inr (element_id, tris, quads, region, res))"

text \<open>
  Modelled from the spec: \<^verbatim>\<open>get_area_centroid_normal\<close> of the Fluent model class, which
  is not among the sources. Area, centroid and normal are derived per face, for each shape
  group independently. The formulas are floating-point geometry and stay parameters:
  \<open>tri_geom\<close> and \<open>quad_geom\<close> give \<^verbatim>\<open>(area, centroid, normal)\<close> of one face from the
  model's nodes and the face's node ids.
\<close>

definition get_area_centroid_normal ::
  "(fluent \<Rightarrow> int list \<Rightarrow> float64 \<times> vec \<times> vec) \<Rightarrow>
   (fluent \<Rightarrow> int list \<Rightarrow> float64 \<times> vec \<times> vec) \<Rightarrow>
   fluent \<Rightarrow> int array2 \<Rightarrow> int array2 \<Rightarrow> error + area_centroid_normal" where
  "get_area_centroid_normal tri_geom quad_geom model tris quads =
     (let tri_out = map (tri_geom model) (rows (cols_from 2 tris));
          quad_out = map (quad_geom model) (rows (cols_from 2 quads))
      in Inr (map (\<lambda>(a, c, n). a) tri_out, map (\<lambda>(a, c, n). a) quad_out,
              map (\<lambda>(a, c, n). c) tri_out, map (\<lambda>(a, c, n). c) quad_out,
              map (\<lambda>(a, c, n). n) tri_out, map (\<lambda>(a, c, n). n) quad_out))"

section \<open>The loader: \<^verbatim>\<open>load_fluent_geometry\<close>\<close>

text \<open>
  The stacking of the derived arrays, quadrilaterals first:
  \<^verbatim>\<open>(normal, centroid, area, nnodes_array)\<close>.
\<close>

definition stack_derived ::
  "area_centroid_normal \<Rightarrow> vec list \<times> vec list \<times> float64 list \<times> float64 list" where
  "stack_derived out =
     (case out of (tri_area, quad_area, tri_centroid, quad_centroid, tri_normal, quad_normal) \<Rightarrow>
        (quad_normal @ tri_normal,
         quad_centroid @ tri_centroid,
         quad_area @ tri_area,
         map (times_zero_plus 4) quad_area @ map (times_zero_plus 3) tri_area))"

text \<open>\<^verbatim>\<open>nodes.max(axis=0)\<close> and \<^verbatim>\<open>nodes.min(axis=0)\<close> of an array of three columns\<close>

fun max_axis0 :: "vec list \<Rightarrow> error + vec" where
  "max_axis0 [] = Inl ValueError"
| "max_axis0 ((x, y, z) # ps) =
     Inr (fold max (map (\<lambda>(x, y, z). x) ps) x,
          fold max (map (\<lambda>(x, y, z). y) ps) y,
          fold max (map (\<lambda>(x, y, z). z) ps) z)"

fun min_axis0 :: "vec list \<Rightarrow> error + vec" where
  "min_axis0 [] = Inl ValueError"
| "min_axis0 ((x, y, z) # ps) =
     Inr (fold min (map (\<lambda>(x, y, z). x) ps) x,
          fold min (map (\<lambda>(x, y, z). y) ps) y,
          fold min (map (\<lambda>(x, y, z). z) ps) z)"

text \<open>
  What a finished load leaves in the GUI and in the grid, and the local arrays
  \<^verbatim>\<open>normal\<close>, \<^verbatim>\<open>centroid\<close>, \<^verbatim>\<open>area\<close> and \<^verbatim>\<open>nnodes_array\<close> that it has stacked
  (no later line reads \<^verbatim>\<open>centroid\<close> and \<^verbatim>\<open>area\<close>).
\<close>

record load_result =
  local_normal :: "vec list"
  local_centroid :: "vec list"
  local_area :: "float64 list"
  local_nnodes_array :: "float64 list"
  gui_nnodes :: nat
  gui_nelements :: nat
  grid_points :: "vec list"
  axes_dim_max :: real
  grid_geometry :: vtk_geometry
  gui_node_ids :: "int list"
  gui_element_ids :: "int list"
  gui_form :: "form_entry list"
  gui_cases :: case_dict

text \<open>
  \<^verbatim>\<open>load_fluent_geometry\<close> on the model that \<^verbatim>\<open>read_fluent\<close> returned. The
  collaborators that are not among the sources are parameters: \<open>gfd\<close> is
  \<^verbatim>\<open>model.get_filtered_data\<close>, \<open>gacn\<close> is \<^verbatim>\<open>model.get_area_centroid_normal\<close>,
  \<open>conv_length\<close> and \<open>conv_pressure\<close> are the unit utilities and \<open>coa\<close> is
  \<^verbatim>\<open>create_offset_arrays\<close>. \<open>skip_reading\<close> is the answer of
  \<^verbatim>\<open>gui._remove_old_geometry\<close>; the load then returns at once (\<open>None\<close>).
\<close>

definition load_fluent_geometry_with ::
  "(fluent \<Rightarrow> int list \<Rightarrow> int list \<Rightarrow> error + filtered_data) \<Rightarrow>
   (fluent \<Rightarrow> int array2 \<Rightarrow> int array2 \<Rightarrow> error + area_centroid_normal) \<Rightarrow>
   (vec list \<Rightarrow> string \<Rightarrow> string \<Rightarrow> error + vec list) \<Rightarrow>
   (real list \<Rightarrow> string \<Rightarrow> string \<Rightarrow> error + real list) \<Rightarrow>
   packer \<Rightarrow> bool \<Rightarrow> fluent \<Rightarrow> other_settings \<Rightarrow> error + load_result option" where
  "load_fluent_geometry_with gfd gacn conv_length conv_pressure coa skip_reading model settings =
     (if skip_reading then Inr None
      else
      let node_id = model_node_id model;
          nodes = model_xyz model;
          nnodes = length nodes;
          ttls = model_titles model;
          regions_to_remove = cart3d_fluent_remove settings;
          regions_to_include = cart3d_fluent_include settings
      in
      ebind (gfd model regions_to_remove regions_to_include)
        (\<lambda>(element_id, tris, quads, region, res).
      ebind (gacn model tris quads) (\<lambda>out.
      case stack_derived out of (normal, centroid, area, nnodes_array) \<Rightarrow>
      ebind (conv_length nodes ''m'' ''in'') (\<lambda>nodes.
      ebind (column res 0) (\<lambda>pressure.
      ebind (conv_pressure pressure ''Pa'' ''psi'') (\<lambda>pressure_psi.
      ebind (set_column res 0 pressure_psi) (\<lambda>res.
      let nelem = length element_id in
      ebind (py_assert (length element_id = length region)
               (Neids_nregion (length element_id) (length region))) (\<lambda>_.
      ebind (max_axis0 nodes) (\<lambda>(xmax, ymax, zmax).
      ebind (min_axis0 nodes) (\<lambda>(xmin, ymin, zmin).
      let dim_max = max (max (xmax - xmin) (ymax - ymin)) (zmax - zmin) in
      ebind (py_assert (length node_id = length (unique node_id)) NoMessage) (\<lambda>_.
      ebind (create_elements_with coa node_id tris quads) (\<lambda>geom.
      ebind (fill_fluent_case Map.empty 1 node_id element_id region res ttls normal nnodes_array)
        (\<lambda>(form, cases).
      Inr (Some \<lparr>local_normal = normal, local_centroid = centroid, local_area = area,
                 local_nnodes_array = nnodes_array,
                 gui_nnodes = nnodes, gui_nelements = nelem, grid_points = nodes,
                 axes_dim_max = dim_max, grid_geometry = geom,
                 gui_node_ids = node_id, gui_element_ids = element_id,
                 gui_form = form, gui_cases = cases\<rparr>))))))))))))))"

text \<open>The loader with the collaborators modelled from the spec.\<close>

definition load_fluent_geometry ::
  "(fluent \<Rightarrow> int list \<Rightarrow> float64 \<times> vec \<times> vec) \<Rightarrow>
   (fluent \<Rightarrow> int list \<Rightarrow> float64 \<times> vec \<times> vec) \<Rightarrow>
   (vec list \<Rightarrow> string \<Rightarrow> string \<Rightarrow> error + vec list) \<Rightarrow>
   (real list \<Rightarrow> string \<Rightarrow> string \<Rightarrow> error + real list) \<Rightarrow>
   bool \<Rightarrow> fluent \<Rightarrow> other_settings \<Rightarrow> error + load_result option" where
  "load_fluent_geometry tri_geom quad_geom conv_length conv_pressure =
     load_fluent_geometry_with get_filtered_data (get_area_centroid_normal tri_geom quad_geom)
       conv_length conv_pressure create_offset_arrays"

section \<open>The scenario of two quadrilaterals and three triangles\<close>

definition example_node_id :: "int list" where
  "example_node_id = [1, 2, 3, 4, 5, 6]"

definition example_quads :: "int array2" where
  "example_quads = \<lparr>ncols = 6, rows = [[1, 1, 1, 2, 3, 4], [2, 1, 3, 4, 5, 6]]\<rparr>"

definition example_tris :: "int array2" where
  "example_tris = \<lparr>ncols = 5, rows = [[3, 1, 1, 2, 3], [4, 1, 2, 3, 4], [5, 1, 4, 5, 6]]\<rparr>"

text \<open>A triangle that references node 999 where the node set holds the ids 1 to 10.\<close>

definition ten_node_ids :: "int list" where
  "ten_node_ids = [1, 2, 3, 4, 5, 6, 7, 8, 9, 10]"



text \<open>The model of the scenario: two imported fields after the reserved first title.\<close>

definition example_titles :: "string list" where
  "example_titles = [''cell'', ''pressure'', ''temperature'']"

definition example_results :: "real array2" where
  "example_results =
     \<lparr>ncols = 2, rows = [[101325, 300], [100000, 301], [0, 302], [50, 303], [7, 304]]\<rparr>"

definition example_element_id :: "int list" where
  "example_element_id = [1, 2, 3, 4, 5]"

definition example_region :: "int list" where
  "example_region = [1, 1, 1, 1, 1]"

text \<open>Ten element ids against an imported field of nine rows.\<close>

definition ten_element_ids :: "int list" where
  "ten_element_ids = [1, 2, 3, 4, 5, 6, 7, 8, 9, 10]"

definition nine_rows :: "real array2" where
  "nine_rows = \<lparr>ncols = 1, rows = [[1], [2], [3], [4], [5], [6], [7], [8], [9]]\<rparr>"

definition example_model :: fluent where
  "example_model =
     \<lparr>model_node_id = example_node_id,
      model_xyz = [(0, 0, 0), (1, 0, 0), (1, 1, 0), (0, 1, 0), (2, 1, 0), (2, 2, 0)],
      model_titles = example_titles,
      model_tris = example_tris,
      model_quads = example_quads,
      model_results = example_results\<rparr>"

definition no_filter :: other_settings where
  "no_filter = \<lparr>cart3d_fluent_remove = [], cart3d_fluent_include = []\<rparr>"

text \<open>
  Stand-ins for the collaborators that stay parameters: every face has area 1 (or, for
  \<open>overflow_geom\<close>, an area that has overflowed to infinity), centroid 0 and normal
  \<open>(0, 0, 1)\<close>; lengths are divided by 0.0254 from \<open>m\<close> to \<open>in\<close> and
  pressures by 6894.76 from \<open>Pa\<close> to \<open>psi\<close>, and other unit names are not recognised.
\<close>

definition unit_geom :: "fluent \<Rightarrow> int list \<Rightarrow> float64 \<times> vec \<times> vec" where
  "unit_geom model face_nodes = (Finite 1, (0, 0, 0), (0, 0, 1))"


definition to_inches :: "vec list \<Rightarrow> string \<Rightarrow> string \<Rightarrow> error + vec list" where
  "to_inches nodes unit_in unit_out =
     (if unit_in = ''m'' \<and> unit_out = ''in''
      then Inr (map (\<lambda>(x, y, z). (x / 0.0254, y / 0.0254, z / 0.0254)) nodes)
      else Inl ConversionError)"

definition to_psi :: "real list \<Rightarrow> string \<Rightarrow> string \<Rightarrow> error + real list" where
  "to_psi pressure unit_in unit_out =
     (if unit_in = ''Pa'' \<and> unit_out = ''psi''
      then Inr (map (\<lambda>p. p / 6894.76) pressure)
      else Inl ConversionError)"

text \<open>The model of the scenario with the node id 5 given twice.\<close>

definition duplicate_model :: fluent where
  "duplicate_model = example_model\<lparr>model_node_id := [1, 2, 3, 4, 5, 5]\<rparr>"



text \<open>Four triangles with the region tags 7, 4, 3 and 7.\<close>

definition tagged_faces :: "int list list" where
  "tagged_faces = [[1, 7, 1, 2, 3], [2, 4, 2, 3, 4], [3, 3, 4, 5, 6], [4, 7, 1, 5, 6]]"

text \<open>The node ids that a failure names: the ids that its message carries.\<close>

fun named_ids :: "error \<Rightarrow> int list" where
  "named_ids (AssertionError (Array ids)) = ids"
| "named_ids (AssertionError (Scalar i)) = [i]"
| "named_ids e = []"


section \<open>Properties of the arrays and of the checks\<close>

lemma ebind_Inr_iff: "ebind m f = Inr y \<longleftrightarrow> (\<exists>x. m = Inr x \<and> f x = Inr y)"
  by (cases m) (simp_all add: ebind_def)

lemma py_assert_Inr_iff: "py_assert c msg = Inr u \<longleftrightarrow> c"
  by (simp add: py_assert_def)


lemma amin_Inr_iff: "amin xs = Inr m \<longleftrightarrow> xs \<noteq> [] \<and> m = Min (set xs)"
  by (cases xs) (auto simp: Min.set_eq_fold [symmetric])

lemma set_unique: "set (unique xs) = set xs"
  by (simp add: unique_def)




lemma set_setdiff1d: "set (setdiff1d a b) = set a - set b"
  by (auto simp: setdiff1d_def set_unique)



section \<open>The packed connectivity\<close>

lemma add_group_spec:
  "add_group create_offset_arrays nid nodes n ct d (off, nl, tyl, ol) =
     Inr (if n \<noteq> 0 then (off + int n * d, nl @ [replicate n d], tyl @ [replicate n ct],
            ol @ [map (\<lambda>i. off + (int i + 1) * d) [0..<n]])
          else (off, nl, tyl, ol))"
  by (simp add: add_group_def create_offset_arrays_def ebind_def ravel_def)

lemma create_elements_Inr:
  assumes "create_elements nid tris quads = Inr g"
  shows "nelement g = nrows quads + nrows tris"
    and "n_nodes g = replicate (nrows quads) 4 @ replicate (nrows tris) 3"
    and "cell_type g = replicate (nrows quads) 9 @ replicate (nrows tris) 5"
    and "cell_offset g = map (\<lambda>i. (int i + 1) * 4) [0..<nrows quads]
                 @ map (\<lambda>i. int (nrows quads) * 4 + (int i + 1) * 3) [0..<nrows tris]"
  using assms
  unfolding create_elements_def create_elements_with_def Let_def
  by (auto simp: ebind_Inr_iff py_assert_Inr_iff add_group_spec hstack_def split: if_splits)

lemma example_create_elements:
  "create_elements example_node_id example_tris example_quads =
     Inr \<lparr>nelement = 5, n_nodes = [4, 4, 3, 3, 3], cell_type = [9, 9, 5, 5, 5],
          cell_offset = [4, 8, 11, 14, 17]\<rparr>"
  by (simp add: create_elements_def create_elements_with_def example_quads_def example_tris_def
      example_node_id_def ebind_def py_assert_def add_group_def create_offset_arrays_def
      hstack_def ravel_def cols_from_def nrows_def unique_def setdiff1d_def upt_conv_Cons)

lemma offsets_explicit:
  assumes "i < q + t"
  shows "(map (\<lambda>i. (int i + 1) * 4) [0..<q] @ map (\<lambda>i. int q * 4 + (int i + 1) * 3) [0..<t]) ! i
       = (if i = 0 then 0
          else (map (\<lambda>i. (int i + 1) * 4) [0..<q]
                @ map (\<lambda>i. int q * 4 + (int i + 1) * 3) [0..<t]) ! (i - 1))
         + (replicate q 4 @ replicate t 3) ! i"
  using assms by (auto simp: nth_append algebra_simps)

text \<open>
  C1. The cumulative offsets of the packed connectivity are one increasing stream that
  continues across the boundary between the quadrilaterals and the triangles: the first
  offset is the first node count, every later offset is its predecessor plus the node count
  of its cell. Two quadrilaterals followed by three triangles give the node counts
  \<open>[4,4,3,3,3]\<close> and the offsets \<open>[4,8,11,14,17]\<close>.
\<close>

theorem cell_offsets_cumulative:
  "(create_elements nid tris quads = Inr g \<longrightarrow>
      length (cell_offset g) = length (n_nodes g) \<and>
      (\<forall>i < length (cell_offset g).
         cell_offset g ! i = (if i = 0 then 0 else cell_offset g ! (i - 1)) + n_nodes g ! i) \<and>
      sorted_wrt (<) (cell_offset g)) \<and>
   (\<exists>g'. create_elements example_node_id example_tris example_quads = Inr g' \<and>
      n_nodes g' = [4, 4, 3, 3, 3] \<and> cell_offset g' = [4, 8, 11, 14, 17])"
proof
  show "create_elements nid tris quads = Inr g \<longrightarrow>
      length (cell_offset g) = length (n_nodes g) \<and>
      (\<forall>i < length (cell_offset g).
         cell_offset g ! i = (if i = 0 then 0 else cell_offset g ! (i - 1)) + n_nodes g ! i) \<and>
      sorted_wrt (<) (cell_offset g)"
  proof
    assume a: "create_elements nid tris quads = Inr g"
    note n = create_elements_Inr(2) [OF a] and c = create_elements_Inr(4) [OF a]
    have 1: "length (cell_offset g) = length (n_nodes g)"
      by (simp add: n c)
    have 2: "\<forall>i < length (cell_offset g).
           cell_offset g ! i = (if i = 0 then 0 else cell_offset g ! (i - 1)) + n_nodes g ! i"
      unfolding n c using offsets_explicit by simp
    have 3: "sorted_wrt (<) (cell_offset g)"
      unfolding c
      by (auto simp: sorted_wrt_append sorted_wrt_map algebra_simps
          intro!: sorted_wrt_mono_rel [of _ "(<)", OF _ sorted_wrt_upt])
    from 1 2 3 show "length (cell_offset g) = length (n_nodes g) \<and>
      (\<forall>i < length (cell_offset g).
         cell_offset g ! i = (if i = 0 then 0 else cell_offset g ! (i - 1)) + n_nodes g ! i) \<and>
      sorted_wrt (<) (cell_offset g)"
      by blast
  qed
next
  show "\<exists>g'. create_elements example_node_id example_tris example_quads = Inr g' \<and>
      n_nodes g' = [4, 4, 3, 3, 3] \<and> cell_offset g' = [4, 8, 11, 14, 17]"
    by (simp add: example_create_elements)
qed

theorem cell_offsets_cumulative_witness:
  "\<exists>g. create_elements example_node_id example_tris example_quads = Inr g \<and>
     cell_offset g ! 0 = n_nodes g ! 0 \<and>
     cell_offset g ! 2 - cell_offset g ! 1 = n_nodes g ! 2 \<and>
     cell_offset g ! 2 = 11"
proof -
  let ?g = "\<lparr>nelement = 5, n_nodes = [4, 4, 3, 3, 3], cell_type = [9, 9, 5, 5, 5],
          cell_offset = [4, 8, 11, 14, 17]\<rparr>"
  have e: "create_elements example_node_id example_tris example_quads = Inr ?g"
    by (rule example_create_elements)
  from cell_offsets_cumulative [of example_node_id example_tris example_quads ?g] e
  have "\<forall>i < length (cell_offset ?g).
         cell_offset ?g ! i = (if i = 0 then 0 else cell_offset ?g ! (i - 1)) + n_nodes ?g ! i"
    by blast
  then have "cell_offset ?g ! 0 = n_nodes ?g ! 0"
    and "cell_offset ?g ! 2 - cell_offset ?g ! 1 = n_nodes ?g ! 2"
    by simp_all
  with e show ?thesis by simp
qed

lemma create_elements_with_checks:
  assumes "create_elements_with coa nid tris quads = Inr g"
  shows "ncols tris = 5" and "ncols quads = 6" and "nid \<noteq> []"
    and "set (ravel (cols_from 2 tris) @ ravel (cols_from 2 quads)) \<subseteq> set nid"
proof -
  from assms have *: "ncols tris = 5 \<and> ncols quads = 6 \<and> nid \<noteq> [] \<and>
      setdiff1d (unique (ravel (cols_from 2 tris) @ ravel (cols_from 2 quads))) nid = []"
    unfolding create_elements_with_def Let_def
    by (auto simp: ebind_Inr_iff py_assert_Inr_iff amin_Inr_iff)
  then show "ncols tris = 5" "ncols quads = 6" "nid \<noteq> []" by simp_all
  from * have "set (setdiff1d (unique (ravel (cols_from 2 tris) @ ravel (cols_from 2 quads))) nid) = {}"
    by simp
  then show "set (ravel (cols_from 2 tris) @ ravel (cols_from 2 quads)) \<subseteq> set nid"
    unfolding set_setdiff1d set_unique by blast
qed

lemma translate_Some:
  assumes "set ns \<subseteq> dom m"
  shows "\<exists>is. translate m ns = Some is \<and> length is = length ns \<and>
           (\<forall>k < length ns. m (ns ! k) = Some (is ! k))"
  using assms
proof (induction ns)
  case Nil
  then show ?case by simp
next
  case (Cons n ns)
  then obtain i where i: "m n = Some i" by auto
  from Cons obtain js where js: "translate m ns = Some js" "length js = length ns"
    "\<forall>k < length ns. m (ns ! k) = Some (js ! k)" by auto
  have "\<forall>k < length (n # ns). m ((n # ns) ! k) = Some ((i # js) ! k)"
    using i js(3) by (auto simp: nth_Cons split: nat.splits)
  with i js show ?case by simp
qed

lemma node_id_to_local_index_dom: "dom (node_id_to_local_index nid) = set nid"
  by (simp add: node_id_to_local_index_def dom_map_of_zip)

lemma node_id_to_local_index_Some:
  assumes "node_id_to_local_index nid n = Some i"
  shows "i < length nid \<and> nid ! i = n"
proof -
  from assms have "(n, i) \<in> set (zip nid [0..<length nid])"
    unfolding node_id_to_local_index_def by (rule map_of_SomeD)
  then show ?thesis by (auto simp: in_set_zip)
qed

lemma length_ravel_rect:
  assumes "rect a"
  shows "length (ravel a) = nrows a * ncols a"
proof -
  from assms have "\<forall>r \<in> set (rows a). length r = ncols a"
    by (simp add: rect_def list_all_iff)
  then have "map length (rows a) = replicate (length (rows a)) (ncols a)"
    by (simp add: map_replicate_const [symmetric] cong: map_cong)
  then show ?thesis
    by (simp add: ravel_def length_concat nrows_def sum_list_replicate)
qed

lemma rect_cols_from: "rect a \<Longrightarrow> rect (cols_from j a)"
  by (simp add: rect_def cols_from_def list_all_iff)

lemma nrows_cols_from: "nrows (cols_from j a) = nrows a"
  by (simp add: nrows_def cols_from_def)

lemma ncols_cols_from: "ncols (cols_from j a) = ncols a - j"
  by (simp add: cols_from_def)

lemma example_flat:
  "flat_node_indices example_node_id example_tris example_quads
     = Some [0, 1, 2, 3, 2, 3, 4, 5, 0, 1, 2, 1, 2, 3, 3, 4, 5]"
  by (simp add: flat_node_indices_def node_id_to_local_index_def example_node_id_def
      example_tris_def example_quads_def ravel_def cols_from_def upt_conv_Cons)

lemma example_rect: "rect example_tris \<and> rect example_quads"
  by (simp add: rect_def example_tris_def example_quads_def)

text \<open>
  C5. In every packed connectivity the node counts, the cell types and the cumulative
  offsets have one entry per kept face, the kept quadrilaterals plus the kept triangles, and
  the flat node-index array of rectangular face tables has as many entries as the node
  counts sum to; each of its entries is the local position of the raw node id.
\<close>

theorem packed_lengths:
  "create_elements nid tris quads = Inr g \<longrightarrow>
     nelement g = nrows quads + nrows tris \<and>
     length (n_nodes g) = nrows quads + nrows tris \<and>
     length (cell_type g) = nrows quads + nrows tris \<and>
     length (cell_offset g) = nrows quads + nrows tris \<and>
     (rect tris \<and> rect quads \<longrightarrow>
        (\<exists>flat. flat_node_indices nid tris quads = Some flat \<and>
           int (length flat) = sum_list (n_nodes g) \<and>
           (\<forall>k < length flat. flat ! k < length nid \<and>
              nid ! (flat ! k) = (ravel (cols_from 2 quads) @ ravel (cols_from 2 tris)) ! k)))"
proof
  assume a: "create_elements nid tris quads = Inr g"
  note g = create_elements_Inr [OF a]
  from a have a': "create_elements_with create_offset_arrays nid tris quads = Inr g"
    by (simp add: create_elements_def)
  note chk = create_elements_with_checks [OF a']
  let ?refs = "ravel (cols_from 2 quads) @ ravel (cols_from 2 tris)"
  have flat: "\<exists>flat. flat_node_indices nid tris quads = Some flat \<and>
           int (length flat) = sum_list (n_nodes g) \<and>
           (\<forall>k < length flat. flat ! k < length nid \<and> nid ! (flat ! k) = ?refs ! k)"
    if r: "rect tris \<and> rect quads"
  proof -
    have "set ?refs \<subseteq> dom (node_id_to_local_index nid)"
      using chk(4) by (auto simp: node_id_to_local_index_dom)
    from translate_Some [OF this] obtain flat where
      f: "translate (node_id_to_local_index nid) ?refs = Some flat"
         "length flat = length ?refs"
         "\<forall>k < length ?refs. node_id_to_local_index nid (?refs ! k) = Some (flat ! k)"
      by blast
    have len: "length ?refs = 4 * nrows quads + 3 * nrows tris"
      using r chk(1,2)
      by (simp add: length_ravel_rect rect_cols_from nrows_cols_from ncols_cols_from)
    have sum: "sum_list (n_nodes g) = 4 * int (nrows quads) + 3 * int (nrows tris)"
      by (simp add: g(2) sum_list_replicate)
    have idx: "\<forall>k < length flat. flat ! k < length nid \<and> nid ! (flat ! k) = ?refs ! k"
      using f(2,3) node_id_to_local_index_Some by metis
    from f(1) have "flat_node_indices nid tris quads = Some flat"
      by (simp add: flat_node_indices_def)
    moreover have "int (length flat) = sum_list (n_nodes g)"
      using f(2) len sum by simp
    ultimately show ?thesis using idx by blast
  qed
  show "nelement g = nrows quads + nrows tris \<and>
     length (n_nodes g) = nrows quads + nrows tris \<and>
     length (cell_type g) = nrows quads + nrows tris \<and>
     length (cell_offset g) = nrows quads + nrows tris \<and>
     (rect tris \<and> rect quads \<longrightarrow>
        (\<exists>flat. flat_node_indices nid tris quads = Some flat \<and>
           int (length flat) = sum_list (n_nodes g) \<and>
           (\<forall>k < length flat. flat ! k < length nid \<and> nid ! (flat ! k) = ?refs ! k)))"
    using flat by (simp add: g)
qed

theorem packed_lengths_witness:
  "\<exists>g flat. create_elements example_node_id example_tris example_quads = Inr g \<and>
     rect example_tris \<and> rect example_quads \<and>
     length (n_nodes g) = 5 \<and> length (cell_type g) = 5 \<and> length (cell_offset g) = 5 \<and>
     flat_node_indices example_node_id example_tris example_quads = Some flat \<and>
     length flat = 17 \<and> sum_list (n_nodes g) = 17"
proof -
  let ?g = "\<lparr>nelement = 5, n_nodes = [4, 4, 3, 3, 3], cell_type = [9, 9, 5, 5, 5],
          cell_offset = [4, 8, 11, 14, 17]\<rparr>"
  have e: "create_elements example_node_id example_tris example_quads = Inr ?g"
    by (rule example_create_elements)
  from packed_lengths [of example_node_id example_tris example_quads ?g] e example_rect
  obtain flat where
    "flat_node_indices example_node_id example_tris example_quads = Some flat"
    "int (length flat) = sum_list (n_nodes ?g)"
    "length (n_nodes ?g) = nrows example_quads + nrows example_tris"
    "length (cell_type ?g) = nrows example_quads + nrows example_tris"
    "length (cell_offset ?g) = nrows example_quads + nrows example_tris"
    by blast
  with e example_rect show ?thesis
    by (simp add: nrows_def example_quads_def example_tris_def)
qed

section \<open>The field catalog\<close>

lemma column_Inr_iff: "column a j = Inr c \<longleftrightarrow> j < ncols a \<and> c = map (\<lambda>r. r ! j) (rows a)"
  by (auto simp: column_def)

lemma imported_fields_Inr:
  assumes "imported_fields ID eids res (enumerate i0 ts) (form, cases, icase) = Inr (form', cases', icase')"
  shows "form' = form @ map (\<lambda>k. Form (ts ! k) (icase + k) []) [0..<length ts] \<and>
    (\<forall>k < length ts. cases' (icase + k) =
           Some (GuiResult ID (ts ! k) (ts ! k) ''centroid''
                   (RealArray (map (\<lambda>r. r ! (i0 + k)) (rows res))) None None None, (0, ts ! k))) \<and>
    (\<forall>j. j < icase \<or> icase + length ts \<le> j \<longrightarrow> cases' j = cases j) \<and>
    (\<forall>k < length ts. i0 + k < ncols res) \<and>
    (ts \<noteq> [] \<longrightarrow> length eids = nrows res) \<and>
    icase' = icase + length ts"
  using assms
proof (induction ts arbitrary: i0 form cases icase)
  case Nil
  then show ?case by simp
next
  case (Cons t ts)
  let ?entry = "(GuiResult ID t t ''centroid'' (RealArray (map (\<lambda>r. r ! i0) (rows res))) None None None, (0::nat, t))"
  from Cons.prems have s: "i0 < ncols res" "length eids = nrows res"
      "imported_fields ID eids res (enumerate (Suc i0) ts)
         (form @ [Form t icase []], cases(icase \<mapsto> ?entry), icase + 1) = Inr (form', cases', icase')"
    by (auto simp: ebind_Inr_iff column_Inr_iff py_assert_Inr_iff nrows_def)
  note ih = Cons.IH [OF s(3)]
  from ih have "form' = (form @ [Form t icase []]) @ map (\<lambda>k. Form (ts ! k) (icase + 1 + k) []) [0..<length ts]"
    by blast
  also have "\<dots> = form @ map (\<lambda>k. Form ((t # ts) ! k) (icase + k) []) [0..<length (t # ts)]"
    by (simp add: upt_conv_Cons del: upt_Suc) (simp add: map_Suc_upt [symmetric] del: upt_Suc)
  finally have 1: "form' = form @ map (\<lambda>k. Form ((t # ts) ! k) (icase + k) []) [0..<length (t # ts)]" .
  from ih have a: "\<forall>k < length ts. cases' (icase + 1 + k) =
           Some (GuiResult ID (ts ! k) (ts ! k) ''centroid''
                   (RealArray (map (\<lambda>r. r ! (Suc i0 + k)) (rows res))) None None None, (0, ts ! k))"
    by blast
  from ih have c: "\<forall>j. j < icase + 1 \<or> icase + 1 + length ts \<le> j \<longrightarrow> cases' j = (cases(icase \<mapsto> ?entry)) j"
    by blast
  then have b: "cases' icase = Some ?entry" by simp
  have 2: "\<forall>k < length (t # ts). cases' (icase + k) =
           Some (GuiResult ID ((t # ts) ! k) ((t # ts) ! k) ''centroid''
                   (RealArray (map (\<lambda>r. r ! (i0 + k)) (rows res))) None None None, (0, (t # ts) ! k))"
  proof (intro allI impI)
    fix k assume "k < length (t # ts)"
    then show "cases' (icase + k) =
           Some (GuiResult ID ((t # ts) ! k) ((t # ts) ! k) ''centroid''
                   (RealArray (map (\<lambda>r. r ! (i0 + k)) (rows res))) None None None, (0, (t # ts) ! k))"
      using a b by (cases k) auto
  qed
  from c have 3: "\<forall>j. j < icase \<or> icase + length (t # ts) \<le> j \<longrightarrow> cases' j = cases j"
    by auto
  from ih have "\<forall>k < length ts. Suc i0 + k < ncols res" by blast
  with s(1) have 4: "\<forall>k < length (t # ts). i0 + k < ncols res"
    by (auto simp: less_Suc_eq_0_disj)
  from ih have 6: "icase' = icase + length (t # ts)" by simp
  from 1 2 3 4 s(2) 6 show ?case by blast
qed

lemma imported_fields_fail:
  assumes "ts \<noteq> []" and "i0 < ncols res" and "length eids \<noteq> nrows res"
  shows "imported_fields ID eids res (enumerate i0 ts) st = Inl (AssertionError NoMessage)"
proof -
  from assms(1) obtain t ts' where ts: "ts = t # ts'" by (cases ts) auto
  obtain form cases icase where st: "st = (form, cases, icase)" by (rule prod_cases3)
  show ?thesis
    using assms(2,3) by (simp add: ts st column_def ebind_def py_assert_def nrows_def)
qed

lemma imported_fields_ok:
  assumes "\<forall>k < length ts. i0 + k < ncols res" and "ts \<noteq> [] \<longrightarrow> length eids = nrows res"
  shows "\<exists>st'. imported_fields ID eids res (enumerate i0 ts) st = Inr st'"
  using assms
proof (induction ts arbitrary: i0 st)
  case Nil
  obtain form cases icase where st: "st = (form, cases, icase)" by (rule prod_cases3)
  show ?case by (simp add: st)
next
  case (Cons t ts)
  obtain form cases icase where st: "st = (form, cases, icase)" by (rule prod_cases3)
  from Cons.prems(1) have 0: "i0 < ncols res" by auto
  from Cons.prems(1) have rest: "\<forall>k < length ts. Suc i0 + k < ncols res" by auto
  from Cons.prems(2) have len: "length eids = nrows res" by simp
  from Cons.IH [OF rest] len
  show ?case
    by (simp add: st column_def ebind_def py_assert_def nrows_def 0)
qed

lemma fill_fluent_case_Inr:
  assumes "fill_fluent_case cases ID nids eids region res ttls nrm nn = Inr (form', cases')"
  shows "length eids = length region"
    and "form' = [Form ''NodeID'' 0 [], Form ''ElementID'' 1 [], Form ''Region'' 2 [],
                  Form ''Normal'' 3 [], Form ''NormalX'' 4 [], Form ''NormalY'' 5 [],
                  Form ''NormalZ'' 6 [], Form ''Nnodes'' 7 []]
                 @ map (\<lambda>i. Form (ttls ! (i + 1)) (8 + i) []) [0..<length ttls - 1]"
    and "cases' 0 = Some (GuiResult ID ''NodeID'' ''NodeID'' ''node'' (IntArray nids) None None None, (0, ''NodeID''))"
    and "cases' 1 = Some (GuiResult ID ''ElementID'' ''ElementID'' ''centroid'' (IntArray eids) None None None, (0, ''ElementID''))"
    and "cases' 2 = Some (GuiResult ID ''Region'' ''Region'' ''centroid'' (IntArray region) None None None, (0, ''Region''))"
    and "cases' 3 = Some (NormalResult 0 ''Normals'' ''Normals'' 2 5 2 ''%.1f'' ''NormalResult'', (0, ''Normal''))"
    and "cases' 4 = Some (GuiResult ID ''normal_x'' ''NormalX'' ''centroid'' (RealArray (map (\<lambda>(x, y, z). x) nrm))
                            (Some ''%.3f'') (Some ''jet'') (Some ''NormalX''), (0, ''NormalX''))"
    and "cases' 5 = Some (GuiResult ID ''normal_y'' ''NormalY'' ''centroid'' (RealArray (map (\<lambda>(x, y, z). y) nrm))
                            (Some ''%.3f'') (Some ''jet'') (Some ''NormalY''), (0, ''NormalY''))"
    and "cases' 6 = Some (GuiResult ID ''normal_z'' ''NormalZ'' ''centroid'' (RealArray (map (\<lambda>(x, y, z). z) nrm))
                            (Some ''%.3f'') (Some ''jet'') (Some ''NormalZ''), (0, ''NormalZ''))"
    and "cases' 7 = Some (GuiResult ID ''nnodes'' ''Nnodes'' ''centroid'' (FloatArray nn)
                            (Some ''%.0f'') (Some ''jet'') (Some ''Nnodes''), (0, ''Nnodes''))"
    and "\<forall>i < length ttls - 1. cases' (8 + i) =
           Some (GuiResult ID (ttls ! (i + 1)) (ttls ! (i + 1)) ''centroid''
                   (RealArray (map (\<lambda>r. r ! i) (rows res))) None None None, (0, ttls ! (i + 1)))"
    and "\<forall>j. 8 + (length ttls - 1) \<le> j \<longrightarrow> cases' j = cases j"
    and "\<forall>i < length ttls - 1. i < ncols res"
    and "1 < length ttls \<longrightarrow> length eids = nrows res"
proof -
  let ?ts = "drop 1 ttls"
  define form0 where "form0 = [Form ''NodeID'' 0 [], Form ''ElementID'' 1 [], Form ''Region'' 2 [],
         Form ''Normal'' 3 [], Form ''NormalX'' 4 [], Form ''NormalY'' 5 [],
         Form ''NormalZ'' 6 [], Form ''Nnodes'' 7 []]"
  define cases0 where "cases0 = cases
         (0 \<mapsto> (GuiResult ID ''NodeID'' ''NodeID'' ''node'' (IntArray nids) None None None, (0::nat, ''NodeID'')),
          1 \<mapsto> (GuiResult ID ''ElementID'' ''ElementID'' ''centroid'' (IntArray eids) None None None, (0, ''ElementID'')),
          2 \<mapsto> (GuiResult ID ''Region'' ''Region'' ''centroid'' (IntArray region) None None None, (0, ''Region'')),
          3 \<mapsto> (NormalResult 0 ''Normals'' ''Normals'' 2 5 2 ''%.1f'' ''NormalResult'', (0, ''Normal'')),
          4 \<mapsto> (GuiResult ID ''normal_x'' ''NormalX'' ''centroid'' (RealArray (map (\<lambda>(x, y, z). x) nrm))
                        (Some ''%.3f'') (Some ''jet'') (Some ''NormalX''), (0, ''NormalX'')),
          5 \<mapsto> (GuiResult ID ''normal_y'' ''NormalY'' ''centroid'' (RealArray (map (\<lambda>(x, y, z). y) nrm))
                        (Some ''%.3f'') (Some ''jet'') (Some ''NormalY''), (0, ''NormalY'')),
          6 \<mapsto> (GuiResult ID ''normal_z'' ''NormalZ'' ''centroid'' (RealArray (map (\<lambda>(x, y, z). z) nrm))
                        (Some ''%.3f'') (Some ''jet'') (Some ''NormalZ''), (0, ''NormalZ'')),
          7 \<mapsto> (GuiResult ID ''nnodes'' ''Nnodes'' ''centroid'' (FloatArray nn)
                        (Some ''%.0f'') (Some ''jet'') (Some ''Nnodes''), (0, ''Nnodes'')))"
  have unfold: "fill_fluent_case cases ID nids eids region res ttls nrm nn =
      ebind (py_assert (length eids = length region) (Neids_nregion (length eids) (length region)))
        (\<lambda>_. ebind (imported_fields ID eids res (enumerate 0 ?ts) (form0, cases0, 8))
               (\<lambda>(f, c, i). Inr (f, c)))"
    unfolding fill_fluent_case_def Let_def form0_def cases0_def by (simp add: numeral_2_eq_2)
  from assms obtain icase' where
    len: "length eids = length region" and
    imp: "imported_fields ID eids res (enumerate 0 ?ts) (form0, cases0, 8) = Inr (form', cases', icase')"
    unfolding unfold by (auto simp: ebind_Inr_iff py_assert_Inr_iff)
  note r = imported_fields_Inr [OF imp]
  have nth: "?ts ! i = ttls ! (i + 1)" if "i < length ttls - 1" for i
    using that by (simp add: nth_drop)
  show "length eids = length region" by (rule len)
  from r have "form' = form0 @ map (\<lambda>k. Form (?ts ! k) (8 + k) []) [0..<length ?ts]" by blast
  moreover have "map (\<lambda>k. Form (?ts ! k) (8 + k) []) [0..<length ?ts]
      = map (\<lambda>i. Form (ttls ! (i + 1)) (8 + i) []) [0..<length ttls - 1]"
    by (rule map_cong) (simp_all add: nth)
  ultimately show "form' = [Form ''NodeID'' 0 [], Form ''ElementID'' 1 [], Form ''Region'' 2 [],
                  Form ''Normal'' 3 [], Form ''NormalX'' 4 [], Form ''NormalY'' 5 [],
                  Form ''NormalZ'' 6 [], Form ''Nnodes'' 7 []]
                 @ map (\<lambda>i. Form (ttls ! (i + 1)) (8 + i) []) [0..<length ttls - 1]"
    by (simp add: form0_def)
  from r have old: "j < 8 \<Longrightarrow> cases' j = cases0 j" for j
    by blast
  from old [of 0] show "cases' 0 = Some (GuiResult ID ''NodeID'' ''NodeID'' ''node'' (IntArray nids) None None None, (0, ''NodeID''))"
    by (simp add: cases0_def)
  from old [of 1] show "cases' 1 = Some (GuiResult ID ''ElementID'' ''ElementID'' ''centroid'' (IntArray eids) None None None, (0, ''ElementID''))"
    by (simp add: cases0_def)
  from old [of 2] show "cases' 2 = Some (GuiResult ID ''Region'' ''Region'' ''centroid'' (IntArray region) None None None, (0, ''Region''))"
    by (simp add: cases0_def)
  from old [of 3] show "cases' 3 = Some (NormalResult 0 ''Normals'' ''Normals'' 2 5 2 ''%.1f'' ''NormalResult'', (0, ''Normal''))"
    by (simp add: cases0_def)
  from old [of 4] show "cases' 4 = Some (GuiResult ID ''normal_x'' ''NormalX'' ''centroid'' (RealArray (map (\<lambda>(x, y, z). x) nrm))
                            (Some ''%.3f'') (Some ''jet'') (Some ''NormalX''), (0, ''NormalX''))"
    by (simp add: cases0_def)
  from old [of 5] show "cases' 5 = Some (GuiResult ID ''normal_y'' ''NormalY'' ''centroid'' (RealArray (map (\<lambda>(x, y, z). y) nrm))
                            (Some ''%.3f'') (Some ''jet'') (Some ''NormalY''), (0, ''NormalY''))"
    by (simp add: cases0_def)
  from old [of 6] show "cases' 6 = Some (GuiResult ID ''normal_z'' ''NormalZ'' ''centroid'' (RealArray (map (\<lambda>(x, y, z). z) nrm))
                            (Some ''%.3f'') (Some ''jet'') (Some ''NormalZ''), (0, ''NormalZ''))"
    by (simp add: cases0_def)
  from old [of 7] show "cases' 7 = Some (GuiResult ID ''nnodes'' ''Nnodes'' ''centroid'' (FloatArray nn)
                            (Some ''%.0f'') (Some ''jet'') (Some ''Nnodes''), (0, ''Nnodes''))"
    by (simp add: cases0_def)
  from r have "\<forall>k < length ?ts. cases' (8 + k) =
           Some (GuiResult ID (?ts ! k) (?ts ! k) ''centroid''
                   (RealArray (map (\<lambda>r. r ! (0 + k)) (rows res))) None None None, (0, ?ts ! k))" by blast
  then show "\<forall>i < length ttls - 1. cases' (8 + i) =
           Some (GuiResult ID (ttls ! (i + 1)) (ttls ! (i + 1)) ''centroid''
                   (RealArray (map (\<lambda>r. r ! i) (rows res))) None None None, (0, ttls ! (i + 1)))"
    by (simp add: nth)
  from r have "\<forall>j. 8 + length ?ts \<le> j \<longrightarrow> cases' j = cases0 j"
    by blast
  then show "\<forall>j. 8 + (length ttls - 1) \<le> j \<longrightarrow> cases' j = cases j"
    by (auto simp: cases0_def)
  from r show "\<forall>i < length ttls - 1. i < ncols res" by simp
  from r show "1 < length ttls \<longrightarrow> length eids = nrows res" by auto
qed

lemma fill_fluent_case_shape:
  "\<exists>form0 cases0. fill_fluent_case cases ID nids eids region res ttls nrm nn =
      ebind (py_assert (length eids = length region) (Neids_nregion (length eids) (length region)))
        (\<lambda>_. ebind (imported_fields ID eids res (enumerate 0 (drop 1 ttls)) (form0, cases0, 8))
               (\<lambda>(f, c, i). Inr (f, c)))"
  unfolding fill_fluent_case_def Let_def add_0 by (intro exI) (rule refl)

lemma fill_fluent_case_fail_region:
  assumes "length eids \<noteq> length region"
  shows "fill_fluent_case cases ID nids eids region res ttls nrm nn
           = Inl (AssertionError (Neids_nregion (length eids) (length region)))"
  using assms by (simp add: fill_fluent_case_def Let_def ebind_def py_assert_def)

lemma fill_fluent_case_fail_rows:
  assumes "length eids = length region" and "1 < length ttls" and "0 < ncols res"
    and "length eids \<noteq> nrows res"
  shows "fill_fluent_case cases ID nids eids region res ttls nrm nn = Inl (AssertionError NoMessage)"
proof -
  from assms(2) have ne: "drop 1 ttls \<noteq> []" by simp
  obtain form0 cases0 where u: "fill_fluent_case cases ID nids eids region res ttls nrm nn =
      ebind (py_assert (length eids = length region) (Neids_nregion (length eids) (length region)))
        (\<lambda>_. ebind (imported_fields ID eids res (enumerate 0 (drop 1 ttls)) (form0, cases0, 8))
               (\<lambda>(f, c, i). Inr (f, c)))"
    using fill_fluent_case_shape by blast
  have f: "imported_fields ID eids res (enumerate 0 (drop 1 ttls)) (form0, cases0, 8)
             = Inl (AssertionError NoMessage)"
    by (rule imported_fields_fail [OF ne assms(3) assms(4)])
  show ?thesis
    unfolding u f using assms(1) by (simp add: ebind_def py_assert_def)
qed

lemma fill_fluent_case_ok:
  assumes "length eids = length region" and "length ttls - 1 \<le> ncols res"
    and "1 < length ttls \<longrightarrow> length eids = nrows res"
  shows "\<exists>out. fill_fluent_case cases ID nids eids region res ttls nrm nn = Inr out"
proof -
  obtain form0 cases0 where u: "fill_fluent_case cases ID nids eids region res ttls nrm nn =
      ebind (py_assert (length eids = length region) (Neids_nregion (length eids) (length region)))
        (\<lambda>_. ebind (imported_fields ID eids res (enumerate 0 (drop 1 ttls)) (form0, cases0, 8))
               (\<lambda>(f, c, i). Inr (f, c)))"
    using fill_fluent_case_shape by blast
  have a: "\<forall>k < length (drop 1 ttls). 0 + k < ncols res" using assms(2) by simp
  have b: "drop 1 ttls \<noteq> [] \<longrightarrow> length eids = nrows res" using assms(3) by simp
  from imported_fields_ok [OF a b, of ID "(form0, cases0, 8)"]
  obtain st' where "imported_fields ID eids res (enumerate 0 (drop 1 ttls)) (form0, cases0, 8) = Inr st'"
    by blast
  then show ?thesis
    unfolding u using assms(1) by (simp add: ebind_def py_assert_def split: prod.splits)
qed

text \<open>
  C3. A catalog that is assembled has the fixed presentation order: the node-id field, the
  element-id field, the region field, the composite normal entry and its three components,
  the element node-count field, and then one entry per declared title from the second
  title on, in declared order: the first declared title is skipped and imported column
  \<open>i\<close> is paired with title \<open>i + 1\<close>.
\<close>

theorem field_catalog_order:
  assumes "fill_fluent_case cases ID nids eids region res ttls nrm nn = Inr (form', cases')"
  shows "form' = [Form ''NodeID'' 0 [], Form ''ElementID'' 1 [], Form ''Region'' 2 [],
                  Form ''Normal'' 3 [], Form ''NormalX'' 4 [], Form ''NormalY'' 5 [],
                  Form ''NormalZ'' 6 [], Form ''Nnodes'' 7 []]
                 @ map (\<lambda>i. Form (ttls ! (i + 1)) (8 + i) []) [0..<length ttls - 1] \<and>
    cases' 0 = Some (GuiResult ID ''NodeID'' ''NodeID'' ''node'' (IntArray nids)
                       None None None, (0, ''NodeID'')) \<and>
    cases' 1 = Some (GuiResult ID ''ElementID'' ''ElementID'' ''centroid'' (IntArray eids)
                       None None None, (0, ''ElementID'')) \<and>
    cases' 2 = Some (GuiResult ID ''Region'' ''Region'' ''centroid'' (IntArray region)
                       None None None, (0, ''Region'')) \<and>
    cases' 3 = Some (NormalResult 0 ''Normals'' ''Normals'' 2 5 2 ''%.1f'' ''NormalResult'',
                     (0, ''Normal'')) \<and>
    cases' 4 = Some (GuiResult ID ''normal_x'' ''NormalX'' ''centroid''
                       (RealArray (map (\<lambda>(x, y, z). x) nrm))
                       (Some ''%.3f'') (Some ''jet'') (Some ''NormalX''), (0, ''NormalX'')) \<and>
    cases' 5 = Some (GuiResult ID ''normal_y'' ''NormalY'' ''centroid''
                       (RealArray (map (\<lambda>(x, y, z). y) nrm))
                       (Some ''%.3f'') (Some ''jet'') (Some ''NormalY''), (0, ''NormalY'')) \<and>
    cases' 6 = Some (GuiResult ID ''normal_z'' ''NormalZ'' ''centroid''
                       (RealArray (map (\<lambda>(x, y, z). z) nrm))
                       (Some ''%.3f'') (Some ''jet'') (Some ''NormalZ''), (0, ''NormalZ'')) \<and>
    cases' 7 = Some (GuiResult ID ''nnodes'' ''Nnodes'' ''centroid'' (FloatArray nn)
                       (Some ''%.0f'') (Some ''jet'') (Some ''Nnodes''), (0, ''Nnodes'')) \<and>
    (\<forall>i < length ttls - 1. cases' (8 + i) =
       Some (GuiResult ID (ttls ! (i + 1)) (ttls ! (i + 1)) ''centroid''
               (RealArray (map (\<lambda>r. r ! i) (rows res))) None None None, (0, ttls ! (i + 1)))) \<and>
    (\<forall>j. 8 + (length ttls - 1) \<le> j \<longrightarrow> cases' j = cases j)"
  using fill_fluent_case_Inr(2-12) [OF assms] by blast

theorem field_catalog_order_witness:
  "\<exists>form' cases'.
     fill_fluent_case Map.empty 1 example_node_id example_element_id example_region
       example_results example_titles [] [] = Inr (form', cases') \<and>
     form' = [Form ''NodeID'' 0 [], Form ''ElementID'' 1 [], Form ''Region'' 2 [],
              Form ''Normal'' 3 [], Form ''NormalX'' 4 [], Form ''NormalY'' 5 [],
              Form ''NormalZ'' 6 [], Form ''Nnodes'' 7 [],
              Form ''pressure'' 8 [], Form ''temperature'' 9 []] \<and>
     cases' 8 = Some (GuiResult 1 ''pressure'' ''pressure'' ''centroid''
                        (RealArray [101325, 100000, 0, 50, 7]) None None None,
                      (0, ''pressure'')) \<and>
     cases' 9 = Some (GuiResult 1 ''temperature'' ''temperature'' ''centroid''
                        (RealArray [300, 301, 302, 303, 304]) None None None,
                      (0, ''temperature''))"
proof -
  have "\<exists>out. fill_fluent_case Map.empty 1 example_node_id example_element_id example_region
       example_results example_titles [] [] = Inr out"
    by (rule fill_fluent_case_ok)
      (simp_all add: example_element_id_def example_region_def example_results_def
        example_titles_def nrows_def)
  then obtain form' cases' where
    e: "fill_fluent_case Map.empty 1 example_node_id example_element_id example_region
       example_results example_titles [] [] = Inr (form', cases')"
    by force
  note o = field_catalog_order [OF e]
  from o have f: "form' = [Form ''NodeID'' 0 [], Form ''ElementID'' 1 [], Form ''Region'' 2 [],
              Form ''Normal'' 3 [], Form ''NormalX'' 4 [], Form ''NormalY'' 5 [],
              Form ''NormalZ'' 6 [], Form ''Nnodes'' 7 [],
              Form ''pressure'' 8 [], Form ''temperature'' 9 []]"
    by (simp add: example_titles_def upt_conv_Cons)
  from o have i: "\<forall>i < length example_titles - 1. cases' (8 + i) =
       Some (GuiResult 1 (example_titles ! (i + 1)) (example_titles ! (i + 1)) ''centroid''
               (RealArray (map (\<lambda>r. r ! i) (rows example_results))) None None None,
             (0, example_titles ! (i + 1)))"
    by blast
  from i [rule_format, of 0] have c8: "cases' 8 = Some (GuiResult 1 ''pressure'' ''pressure''
      ''centroid'' (RealArray [101325, 100000, 0, 50, 7]) None None None, (0, ''pressure''))"
    by (simp add: example_titles_def example_results_def)
  from i [rule_format, of 1] have c9: "cases' 9 = Some (GuiResult 1 ''temperature''
      ''temperature'' ''centroid'' (RealArray [300, 301, 302, 303, 304]) None None None,
      (0, ''temperature''))"
    by (simp add: example_titles_def example_results_def)
  from e f c8 c9 show ?thesis by blast
qed

text \<open>
  C6. The field assembler fails when the element-id array and the region array differ in
  length, and when there is an imported field and its row count differs from the length of
  the element-id array (ten element ids against a field of nine rows); with equal lengths
  it succeeds. The failure is the assertion of the source. The results hold a column for
  every title after the first.
\<close>

theorem field_length_mismatch:
  assumes "length ttls - 1 \<le> ncols res"
  shows "(length eids \<noteq> length region \<longrightarrow>
            fill_fluent_case cases ID nids eids region res ttls nrm nn
              = Inl (AssertionError (Neids_nregion (length eids) (length region)))) \<and>
         (length eids = length region \<and> 1 < length ttls \<and> length eids \<noteq> nrows res \<longrightarrow>
            fill_fluent_case cases ID nids eids region res ttls nrm nn
              = Inl (AssertionError NoMessage)) \<and>
         (length eids = length region \<and> (1 < length ttls \<longrightarrow> length eids = nrows res) \<longrightarrow>
            (\<exists>out. fill_fluent_case cases ID nids eids region res ttls nrm nn = Inr out))"
proof (intro conjI impI)
  assume "length eids \<noteq> length region"
  then show "fill_fluent_case cases ID nids eids region res ttls nrm nn
              = Inl (AssertionError (Neids_nregion (length eids) (length region)))"
    by (rule fill_fluent_case_fail_region)
next
  assume h: "length eids = length region \<and> 1 < length ttls \<and> length eids \<noteq> nrows res"
  with assms have "0 < ncols res" by linarith
  with h show "fill_fluent_case cases ID nids eids region res ttls nrm nn
              = Inl (AssertionError NoMessage)"
    by (simp add: fill_fluent_case_fail_rows)
next
  assume h: "length eids = length region \<and> (1 < length ttls \<longrightarrow> length eids = nrows res)"
  from h have 1: "length eids = length region"
    and 2: "1 < length ttls \<longrightarrow> length eids = nrows res" by blast+
  show "\<exists>out. fill_fluent_case cases ID nids eids region res ttls nrm nn = Inr out"
    by (rule fill_fluent_case_ok [OF 1 assms 2])
qed

theorem field_length_mismatch_witness:
  "fill_fluent_case Map.empty 1 ten_node_ids ten_element_ids ten_element_ids nine_rows
     [''cell'', ''pressure''] [] [] = Inl (AssertionError NoMessage) \<and>
   fill_fluent_case Map.empty 1 ten_node_ids ten_element_ids example_region nine_rows
     [''cell'', ''pressure''] [] [] = Inl (AssertionError (Neids_nregion 10 5)) \<and>
   (\<exists>out. fill_fluent_case Map.empty 1 example_node_id example_element_id example_region
      example_results example_titles [] [] = Inr out)"
proof -
  have 1: "length [''cell'', ''pressure''] - 1 \<le> ncols nine_rows"
    by (simp add: nine_rows_def)
  have 2: "length example_titles - 1 \<le> ncols example_results"
    by (simp add: example_titles_def example_results_def)
  from field_length_mismatch [OF 1, of ten_element_ids ten_element_ids Map.empty 1 ten_node_ids "[]" "[]"]
  have a: "fill_fluent_case Map.empty 1 ten_node_ids ten_element_ids ten_element_ids nine_rows
     [''cell'', ''pressure''] [] [] = Inl (AssertionError NoMessage)"
    by (simp add: ten_element_ids_def nine_rows_def nrows_def)
  from field_length_mismatch [OF 1, of ten_element_ids example_region Map.empty 1 ten_node_ids "[]" "[]"]
  have b: "fill_fluent_case Map.empty 1 ten_node_ids ten_element_ids example_region nine_rows
     [''cell'', ''pressure''] [] [] = Inl (AssertionError (Neids_nregion 10 5))"
    by (simp add: ten_element_ids_def example_region_def)
  from field_length_mismatch [OF 2, of example_element_id example_region Map.empty 1 example_node_id "[]" "[]"]
  have c: "\<exists>out. fill_fluent_case Map.empty 1 example_node_id example_element_id example_region
      example_results example_titles [] [] = Inr out"
    by (simp add: example_element_id_def example_region_def example_results_def
        example_titles_def nrows_def)
  from a b c show ?thesis by blast
qed

section \<open>The loader\<close>

lemma length_unique_iff: "length xs = length (unique xs) \<longleftrightarrow> distinct xs"
proof -
  have "length (remdups (sort xs)) = length (sort xs) \<longleftrightarrow> distinct (sort xs)"
    by (metis length_remdups_eq remdups_id_iff_distinct)
  then show ?thesis by (auto simp: unique_def)
qed

lemma set_column_other:
  assumes "set_column a 0 vs = Inr a'" and "i \<noteq> 0"
  shows "column a' i = column a i"
proof -
  have zip: "map (\<lambda>x. (case x of (r, v) \<Rightarrow> r[0 := v]) ! i) (zip (rows a) vs)
               = map (\<lambda>r. r ! i) (rows a)"
    if "length vs = length (rows a)"
  proof -
    have "map (\<lambda>x. (case x of (r, v) \<Rightarrow> r[0 := v]) ! i) (zip (rows a) vs)
        = map (\<lambda>x. fst x ! i) (zip (rows a) vs)"
      using assms(2) by (intro map_cong) auto
    also have "\<dots> = map (\<lambda>r. r ! i) (map fst (zip (rows a) vs))"
      by (simp add: comp_def)
    also have "\<dots> = map (\<lambda>r. r ! i) (rows a)"
      using that by simp
    finally show ?thesis .
  qed
  from assms show ?thesis
    by (auto simp: set_column_def column_def nrows_def zip comp_def
        split: if_splits list.splits)
qed

lemma set_column_same:
  assumes "set_column a 0 vs = Inr a'" and "rect a" and "length vs = nrows a"
  shows "column a' 0 = Inr vs"
proof -
  from assms(1) have nc: "0 < ncols a"
    by (auto simp: set_column_def split: if_splits)
  from assms(1,3) have a': "a' = a\<lparr>rows := map (\<lambda>(r, v). r[0 := v]) (zip (rows a) vs)\<rparr>"
    by (auto simp: set_column_def split: if_splits)
  have ne: "\<forall>r \<in> set (rows a). r \<noteq> []"
    using assms(2) nc by (auto simp: rect_def list_all_iff)
  have "map (\<lambda>x. (case x of (r, v) \<Rightarrow> r[0 := v]) ! 0) (zip (rows a) vs)
        = map snd (zip (rows a) vs)"
    using ne by (intro map_cong) (auto dest!: set_zip_leftD)
  also have "\<dots> = vs"
    using assms(3) by (simp add: nrows_def)
  finally show ?thesis
    using nc by (simp add: column_def a' comp_def)
qed

lemma load_Inr:
  assumes "load_fluent_geometry_with gfd gacn cl cp coa skip model settings = Inr (Some out)"
  shows "\<exists>eid tris quads region res ta qa tc qc tn qn p0 p res'.
    \<not> skip \<and>
    gfd model (cart3d_fluent_remove settings) (cart3d_fluent_include settings)
      = Inr (eid, tris, quads, region, res) \<and>
    gacn model tris quads = Inr (ta, qa, tc, qc, tn, qn) \<and>
    cl (model_xyz model) ''m'' ''in'' = Inr (grid_points out) \<and>
    column res 0 = Inr p0 \<and>
    cp p0 ''Pa'' ''psi'' = Inr p \<and>
    set_column res 0 p = Inr res' \<and>
    length eid = length region \<and>
    length (model_node_id model) = length (unique (model_node_id model)) \<and>
    create_elements_with coa (model_node_id model) tris quads = Inr (grid_geometry out) \<and>
    fill_fluent_case Map.empty 1 (model_node_id model) eid region res' (model_titles model)
      (qn @ tn) (map (times_zero_plus 4) qa @ map (times_zero_plus 3) ta)
      = Inr (gui_form out, gui_cases out) \<and>
    local_normal out = qn @ tn \<and>
    local_centroid out = qc @ tc \<and>
    local_area out = qa @ ta \<and>
    local_nnodes_array out = map (times_zero_plus 4) qa @ map (times_zero_plus 3) ta \<and>
    gui_node_ids out = model_node_id model \<and>
    gui_element_ids out = eid \<and>
    gui_nnodes out = length (model_xyz model) \<and>
    gui_nelements out = length eid"
  using assms
  unfolding load_fluent_geometry_with_def Let_def stack_derived_def
  by (auto simp: ebind_Inr_iff py_assert_Inr_iff split: if_splits prod.splits)

lemma load_ok:
  assumes "gfd model (cart3d_fluent_remove settings) (cart3d_fluent_include settings)
             = Inr (eid, tris, quads, region, res)"
    and "gacn model tris quads = Inr (ta, qa, tc, qc, tn, qn)"
    and "cl (model_xyz model) ''m'' ''in'' = Inr nodes" and "nodes \<noteq> []"
    and "column res 0 = Inr p0" and "cp p0 ''Pa'' ''psi'' = Inr p"
    and "set_column res 0 p = Inr res'"
    and "length eid = length region"
    and "distinct (model_node_id model)"
    and "create_elements_with coa (model_node_id model) tris quads = Inr geom"
    and "fill_fluent_case Map.empty 1 (model_node_id model) eid region res' (model_titles model)
           (qn @ tn) (map (times_zero_plus 4) qa @ map (times_zero_plus 3) ta) = Inr (form, cases)"
  shows "\<exists>out. load_fluent_geometry_with gfd gacn cl cp coa False model settings = Inr (Some out)"
proof -
  from assms(4) obtain v ps where "nodes = v # ps"
    by (cases nodes) auto
  then obtain mx mn where "max_axis0 nodes = Inr mx" "min_axis0 nodes = Inr mn"
    by (cases v) auto
  with assms show ?thesis
    unfolding load_fluent_geometry_with_def Let_def
    by (simp add: length_unique_iff py_assert_def ebind_def stack_derived_def
        split: prod.splits)
qed

lemma load_duplicate_fails:
  assumes "\<not> distinct (model_node_id model)"
  shows "\<exists>e. \<forall>coa. load_fluent_geometry_with gfd gacn cl cp coa False model settings = Inl e"
  using assms
  unfolding load_fluent_geometry_with_def Let_def
  by (simp add: length_unique_iff py_assert_def ebind_def stack_derived_def
      split: sum.splits prod.splits)

lemma load_duplicate_error:
  assumes "\<not> distinct (model_node_id model)"
    and "gfd model (cart3d_fluent_remove settings) (cart3d_fluent_include settings)
           = Inr (eid, tris, quads, region, res)"
    and "gacn model tris quads = Inr g"
    and "cl (model_xyz model) ''m'' ''in'' = Inr nodes" and "nodes \<noteq> []"
    and "column res 0 = Inr p0" and "cp p0 ''Pa'' ''psi'' = Inr p"
    and "set_column res 0 p = Inr res'"
    and "length eid = length region"
  shows "load_fluent_geometry_with gfd gacn cl cp coa False model settings
           = Inl (AssertionError NoMessage)"
proof -
  from assms(5) obtain v ps where "nodes = v # ps"
    by (cases nodes) auto
  then obtain mx mn where "max_axis0 nodes = Inr mx" "min_axis0 nodes = Inr mn"
    by (cases v) auto
  with assms show ?thesis
    unfolding load_fluent_geometry_with_def Let_def
    by (simp add: length_unique_iff py_assert_def ebind_def stack_derived_def
        split: prod.splits)
qed

lemma example_filtered:
  "get_filtered_data example_model [] []
     = Inr (example_element_id, example_tris, example_quads, example_region, example_results)"
  by (simp add: get_filtered_data_def example_model_def Let_def filter_faces_def keep_face_def
      example_quads_def example_tris_def example_results_def example_element_id_def
      example_region_def)


lemma example_column0: "column example_results 0 = Inr [101325, 100000, 0, 50, 7]"
  by (simp add: column_def example_results_def)

lemma example_set_column:
  "set_column example_results 0 (map (\<lambda>p. p / 6894.76) [101325, 100000, 0, 50, 7])
     = Inr \<lparr>ncols = 2, rows = [[101325 / 6894.76, 300], [100000 / 6894.76, 301], [0, 302],
                               [50 / 6894.76, 303], [7 / 6894.76, 304]]\<rparr>"
  by (simp add: set_column_def example_results_def nrows_def)

lemma example_load:
  "\<exists>out. load_fluent_geometry tri_geom quad_geom to_inches to_psi False example_model no_filter
           = Inr (Some out)"
proof -
  let ?res' = "\<lparr>ncols = 2, rows = [[101325 / 6894.76, 300], [100000 / 6894.76, 301], [0, 302],
                               [50 / 6894.76, 303], [7 / 6894.76, 304 :: real]]\<rparr>"
  have f: "get_filtered_data example_model (cart3d_fluent_remove no_filter)
             (cart3d_fluent_include no_filter)
           = Inr (example_element_id, example_tris, example_quads, example_region, example_results)"
    by (simp add: no_filter_def example_filtered)
  have "\<exists>ta qa tc qc tn qn.
      get_area_centroid_normal tri_geom quad_geom example_model example_tris example_quads
        = Inr (ta, qa, tc, qc, tn, qn)"
    by (simp add: get_area_centroid_normal_def Let_def)
  then obtain ta qa tc qc tn qn where
    a: "get_area_centroid_normal tri_geom quad_geom example_model example_tris example_quads
        = Inr (ta, qa, tc, qc, tn, qn)"
    by blast
  have c: "to_inches (model_xyz example_model) ''m'' ''in''
             = Inr (map (\<lambda>(x, y, z). (x / 0.0254, y / 0.0254, z / 0.0254)) (model_xyz example_model))"
    by (simp add: to_inches_def)
  have ne: "map (\<lambda>(x, y, z). (x / 0.0254, y / 0.0254, z / 0.0254)) (model_xyz example_model) \<noteq> []"
    by (simp add: example_model_def)
  have p: "to_psi [101325, 100000, 0, 50, 7] ''Pa'' ''psi''
             = Inr (map (\<lambda>p. p / 6894.76) [101325, 100000, 0, 50, 7])"
    by (simp add: to_psi_def)
  have d: "distinct (model_node_id example_model)"
    by (simp add: example_model_def example_node_id_def)
  have g: "create_elements_with create_offset_arrays (model_node_id example_model)
             example_tris example_quads
           = Inr \<lparr>nelement = 5, n_nodes = [4, 4, 3, 3, 3], cell_type = [9, 9, 5, 5, 5],
                  cell_offset = [4, 8, 11, 14, 17]\<rparr>"
    using example_create_elements by (simp add: create_elements_def example_model_def)
  have "\<exists>out. fill_fluent_case Map.empty 1 (model_node_id example_model) example_element_id
          example_region ?res' (model_titles example_model) (qn @ tn)
          (map (times_zero_plus 4) qa @ map (times_zero_plus 3) ta) = Inr out"
    by (rule fill_fluent_case_ok)
      (simp_all add: example_element_id_def example_region_def example_model_def
        example_titles_def nrows_def)
  then obtain form cases where
    fl: "fill_fluent_case Map.empty 1 (model_node_id example_model) example_element_id
          example_region ?res' (model_titles example_model) (qn @ tn)
          (map (times_zero_plus 4) qa @ map (times_zero_plus 3) ta) = Inr (form, cases)"
    by force
  have len: "length example_element_id = length example_region"
    by (simp add: example_element_id_def example_region_def)
  show ?thesis
    unfolding load_fluent_geometry_def
    by (rule load_ok [where gfd = get_filtered_data
          and gacn = "get_area_centroid_normal tri_geom quad_geom"
          and cl = to_inches and cp = to_psi and coa = create_offset_arrays
          and model = example_model and settings = no_filter,
          OF f a c ne example_column0 p example_set_column len d g fl])
qed


lemma get_filtered_data_Inr:
  assumes "get_filtered_data model rr ri = Inr (eid, tris, quads, region, res)"
  shows "rows quads = filter_faces (rows (model_quads model)) rr ri"
    and "rows tris = filter_faces (rows (model_tris model)) rr ri"
    and "ncols quads = ncols (model_quads model)"
    and "ncols tris = ncols (model_tris model)"
    and "eid = face_ids (rows quads) @ face_ids (rows tris)"
    and "region = face_regions (rows quads) @ face_regions (rows tris)"
  using assms by (auto simp: get_filtered_data_def Let_def)

lemma duplicate_load:
  "load_fluent_geometry unit_geom unit_geom to_inches to_psi False duplicate_model no_filter
     = Inl (AssertionError NoMessage)"
proof -
  have d: "\<not> distinct (model_node_id duplicate_model)"
    by (simp add: duplicate_model_def)
  have f: "get_filtered_data duplicate_model (cart3d_fluent_remove no_filter)
             (cart3d_fluent_include no_filter)
           = Inr (example_element_id, example_tris, example_quads, example_region, example_results)"
    by (simp add: get_filtered_data_def duplicate_model_def example_model_def Let_def
        filter_faces_def keep_face_def no_filter_def
        example_quads_def example_tris_def example_results_def example_element_id_def
        example_region_def)
  have g: "\<exists>g. get_area_centroid_normal unit_geom unit_geom duplicate_model example_tris
             example_quads = Inr g"
    by (simp add: get_area_centroid_normal_def)
  then obtain g where g: "get_area_centroid_normal unit_geom unit_geom duplicate_model
      example_tris example_quads = Inr g"
    by blast
  have c: "to_inches (model_xyz duplicate_model) ''m'' ''in''
             = Inr (map (\<lambda>(x, y, z). (x / 0.0254, y / 0.0254, z / 0.0254))
                      (model_xyz duplicate_model))"
    by (simp add: to_inches_def)
  have ne: "map (\<lambda>(x, y, z). (x / 0.0254, y / 0.0254, z / 0.0254)) (model_xyz duplicate_model)
              \<noteq> []"
    by (simp add: duplicate_model_def example_model_def)
  have p: "to_psi [101325, 100000, 0, 50, 7] ''Pa'' ''psi''
             = Inr (map (\<lambda>p. p / 6894.76) [101325, 100000, 0, 50, 7])"
    by (simp add: to_psi_def)
  have len: "length example_element_id = length example_region"
    by (simp add: example_element_id_def example_region_def)
  show ?thesis
    unfolding load_fluent_geometry_def
    by (rule load_duplicate_error [where gfd = get_filtered_data
          and gacn = "get_area_centroid_normal unit_geom unit_geom"
          and cl = to_inches and cp = to_psi
          and model = duplicate_model and settings = no_filter,
          OF d f g c ne example_column0 p example_set_column len])
qed





lemma load_spec_Inr:
  assumes "load_fluent_geometry tri_geom quad_geom cl cp skip model settings = Inr (Some out)"
  shows "\<exists>eid tris quads region res res'.
     get_filtered_data model (cart3d_fluent_remove settings) (cart3d_fluent_include settings)
       = Inr (eid, tris, quads, region, res) \<and>
     create_elements (model_node_id model) tris quads = Inr (grid_geometry out) \<and>
     fill_fluent_case Map.empty 1 (model_node_id model) eid region res' (model_titles model)
       (map (\<lambda>f. snd (snd (quad_geom model f))) (rows (cols_from 2 quads))
          @ map (\<lambda>f. snd (snd (tri_geom model f))) (rows (cols_from 2 tris)))
       (map (\<lambda>f. times_zero_plus 4 (fst (quad_geom model f))) (rows (cols_from 2 quads))
          @ map (\<lambda>f. times_zero_plus 3 (fst (tri_geom model f))) (rows (cols_from 2 tris)))
       = Inr (gui_form out, gui_cases out) \<and>
     gui_element_ids out = eid \<and>
     local_normal out =
       map (\<lambda>f. snd (snd (quad_geom model f))) (rows (cols_from 2 quads))
         @ map (\<lambda>f. snd (snd (tri_geom model f))) (rows (cols_from 2 tris)) \<and>
     local_centroid out =
       map (\<lambda>f. fst (snd (quad_geom model f))) (rows (cols_from 2 quads))
         @ map (\<lambda>f. fst (snd (tri_geom model f))) (rows (cols_from 2 tris)) \<and>
     local_area out =
       map (\<lambda>f. fst (quad_geom model f)) (rows (cols_from 2 quads))
         @ map (\<lambda>f. fst (tri_geom model f)) (rows (cols_from 2 tris)) \<and>
     local_nnodes_array out =
       map (\<lambda>f. times_zero_plus 4 (fst (quad_geom model f))) (rows (cols_from 2 quads))
         @ map (\<lambda>f. times_zero_plus 3 (fst (tri_geom model f))) (rows (cols_from 2 tris))"
proof -
  from load_Inr [OF assms [unfolded load_fluent_geometry_def]]
  obtain eid tris quads region res ta qa tc qc tn qn res' where
    f: "get_filtered_data model (cart3d_fluent_remove settings) (cart3d_fluent_include settings)
          = Inr (eid, tris, quads, region, res)"
    and a: "get_area_centroid_normal tri_geom quad_geom model tris quads
          = Inr (ta, qa, tc, qc, tn, qn)"
    and c: "create_elements_with create_offset_arrays (model_node_id model) tris quads
          = Inr (grid_geometry out)"
    and fl: "fill_fluent_case Map.empty 1 (model_node_id model) eid region res'
          (model_titles model) (qn @ tn)
          (map (times_zero_plus 4) qa @ map (times_zero_plus 3) ta)
          = Inr (gui_form out, gui_cases out)"
    and e: "gui_element_ids out = eid"
    and l: "local_normal out = qn @ tn" "local_centroid out = qc @ tc"
      "local_area out = qa @ ta"
      "local_nnodes_array out = map (times_zero_plus 4) qa @ map (times_zero_plus 3) ta"
    by blast
  from a have g: "ta = map (\<lambda>f. fst (tri_geom model f)) (rows (cols_from 2 tris))"
    "qa = map (\<lambda>f. fst (quad_geom model f)) (rows (cols_from 2 quads))"
    "tc = map (\<lambda>f. fst (snd (tri_geom model f))) (rows (cols_from 2 tris))"
    "qc = map (\<lambda>f. fst (snd (quad_geom model f))) (rows (cols_from 2 quads))"
    "tn = map (\<lambda>f. snd (snd (tri_geom model f))) (rows (cols_from 2 tris))"
    "qn = map (\<lambda>f. snd (snd (quad_geom model f))) (rows (cols_from 2 quads))"
    by (auto simp: get_area_centroid_normal_def Let_def case_prod_unfold comp_def)
  from c have c': "create_elements (model_node_id model) tris quads = Inr (grid_geometry out)"
    by (simp add: create_elements_def)
  from f c' fl e l show ?thesis
    unfolding g by (simp add: comp_def) blast
qed




text \<open>
  C8. When \<open>regions_to_include\<close> is not empty, the region filter keeps exactly the
  faces whose region tag is in \<open>regions_to_include\<close>, in their order, whatever
  \<open>regions_to_remove\<close> holds; with both lists empty it keeps all faces in their order.
\<close>

theorem region_filter_precedence:
  "(regions_to_include \<noteq> [] \<longrightarrow>
      filter_faces faces regions_to_remove regions_to_include
        = filter (\<lambda>face. \<exists>r. region_tag face = Some r \<and> r \<in> set regions_to_include) faces \<and>
      filter_faces faces regions_to_remove regions_to_include
        = filter_faces faces other_regions_to_remove regions_to_include) \<and>
   filter_faces faces [] [] = faces"
proof -
  have k: "filter_faces faces rr regions_to_include
           = filter (\<lambda>face. \<exists>r. region_tag face = Some r \<and> r \<in> set regions_to_include) faces"
    if "regions_to_include \<noteq> []" for rr
    unfolding filter_faces_def
    using that by (intro filter_cong) (simp_all add: keep_face_def split: option.splits)
  have "filter_faces faces [] [] = faces"
    by (simp add: filter_faces_def keep_face_def)
  with k [of regions_to_remove] k [of other_regions_to_remove] show ?thesis
    by simp
qed

theorem region_filter_precedence_witness:
  "[7] \<noteq> ([] :: int list) \<and>
   filter_faces tagged_faces [7, 3] [7] = [[1, 7, 1, 2, 3], [4, 7, 1, 5, 6]] \<and>
   filter_faces tagged_faces [] [7] = [[1, 7, 1, 2, 3], [4, 7, 1, 5, 6]] \<and>
   filter_faces tagged_faces [] [] = tagged_faces"
proof -
  have n: "[7] \<noteq> ([] :: int list)" by simp
  from region_filter_precedence [of "[7]" tagged_faces "[7, 3]" "[]"] n
  have a: "filter_faces tagged_faces [7, 3] [7]
        = filter (\<lambda>face. \<exists>r. region_tag face = Some r \<and> r \<in> set [7]) tagged_faces"
    and b: "filter_faces tagged_faces [7, 3] [7] = filter_faces tagged_faces [] [7]"
    and c: "filter_faces tagged_faces [] [] = tagged_faces"
    by blast+
  have e: "filter (\<lambda>face. \<exists>r. region_tag face = Some r \<and> r \<in> set [7]) tagged_faces
          = [[1, 7, 1, 2, 3], [4, 7, 1, 5, 6]]"
    by (simp add: tagged_faces_def)
  from a b c e n show ?thesis by metis
qed

text \<open>
  C2. In a load the element ids are the ids of the kept quadrilaterals followed by the ids
  of the kept triangles, and the arrays that the load stacks (area, centroid, normal and
  node count), the region, normal and node-count fields of its catalog and the packed
  connectivity follow the same order: the entries of the kept quadrilaterals first, in
  their order, then the entries of the kept triangles.
\<close>

theorem quads_then_tris_order:
  assumes "load_fluent_geometry tri_geom quad_geom cl cp skip model settings = Inr (Some out)"
  shows "\<exists>tris quads.
     rows quads = filter_faces (rows (model_quads model))
                    (cart3d_fluent_remove settings) (cart3d_fluent_include settings) \<and>
     rows tris = filter_faces (rows (model_tris model))
                   (cart3d_fluent_remove settings) (cart3d_fluent_include settings) \<and>
     gui_element_ids out = face_ids (rows quads) @ face_ids (rows tris) \<and>
     local_area out =
       map (\<lambda>f. fst (quad_geom model f)) (rows (cols_from 2 quads))
         @ map (\<lambda>f. fst (tri_geom model f)) (rows (cols_from 2 tris)) \<and>
     local_centroid out =
       map (\<lambda>f. fst (snd (quad_geom model f))) (rows (cols_from 2 quads))
         @ map (\<lambda>f. fst (snd (tri_geom model f))) (rows (cols_from 2 tris)) \<and>
     local_normal out =
       map (\<lambda>f. snd (snd (quad_geom model f))) (rows (cols_from 2 quads))
         @ map (\<lambda>f. snd (snd (tri_geom model f))) (rows (cols_from 2 tris)) \<and>
     local_nnodes_array out =
       map (\<lambda>f. times_zero_plus 4 (fst (quad_geom model f))) (rows (cols_from 2 quads))
         @ map (\<lambda>f. times_zero_plus 3 (fst (tri_geom model f))) (rows (cols_from 2 tris)) \<and>
     gui_cases out 1 =
       Some (GuiResult 1 ''ElementID'' ''ElementID'' ''centroid''
               (IntArray (gui_element_ids out)) None None None, (0, ''ElementID'')) \<and>
     gui_cases out 2 =
       Some (GuiResult 1 ''Region'' ''Region'' ''centroid''
               (IntArray (face_regions (rows quads) @ face_regions (rows tris)))
               None None None, (0, ''Region'')) \<and>
     gui_cases out 4 =
       Some (GuiResult 1 ''normal_x'' ''NormalX'' ''centroid''
               (RealArray (map (\<lambda>(x, y, z). x) (local_normal out)))
               (Some ''%.3f'') (Some ''jet'') (Some ''NormalX''), (0, ''NormalX'')) \<and>
     gui_cases out 5 =
       Some (GuiResult 1 ''normal_y'' ''NormalY'' ''centroid''
               (RealArray (map (\<lambda>(x, y, z). y) (local_normal out)))
               (Some ''%.3f'') (Some ''jet'') (Some ''NormalY''), (0, ''NormalY'')) \<and>
     gui_cases out 6 =
       Some (GuiResult 1 ''normal_z'' ''NormalZ'' ''centroid''
               (RealArray (map (\<lambda>(x, y, z). z) (local_normal out)))
               (Some ''%.3f'') (Some ''jet'') (Some ''NormalZ''), (0, ''NormalZ'')) \<and>
     gui_cases out 7 =
       Some (GuiResult 1 ''nnodes'' ''Nnodes'' ''centroid''
               (FloatArray (local_nnodes_array out))
               (Some ''%.0f'') (Some ''jet'') (Some ''Nnodes''), (0, ''Nnodes'')) \<and>
     n_nodes (grid_geometry out) = replicate (nrows quads) 4 @ replicate (nrows tris) 3 \<and>
     cell_type (grid_geometry out) = replicate (nrows quads) 9 @ replicate (nrows tris) 5"
proof -
  from load_spec_Inr [OF assms]
  obtain eid tris quads region res res' where
    f: "get_filtered_data model (cart3d_fluent_remove settings) (cart3d_fluent_include settings)
          = Inr (eid, tris, quads, region, res)"
    and c: "create_elements (model_node_id model) tris quads = Inr (grid_geometry out)"
    and e: "gui_element_ids out = eid"
    and ln: "local_normal out =
       map (\<lambda>f. snd (snd (quad_geom model f))) (rows (cols_from 2 quads))
         @ map (\<lambda>f. snd (snd (tri_geom model f))) (rows (cols_from 2 tris))"
    and lc: "local_centroid out =
       map (\<lambda>f. fst (snd (quad_geom model f))) (rows (cols_from 2 quads))
         @ map (\<lambda>f. fst (snd (tri_geom model f))) (rows (cols_from 2 tris))"
    and la: "local_area out =
       map (\<lambda>f. fst (quad_geom model f)) (rows (cols_from 2 quads))
         @ map (\<lambda>f. fst (tri_geom model f)) (rows (cols_from 2 tris))"
    and lnn: "local_nnodes_array out =
       map (\<lambda>f. times_zero_plus 4 (fst (quad_geom model f))) (rows (cols_from 2 quads))
         @ map (\<lambda>f. times_zero_plus 3 (fst (tri_geom model f))) (rows (cols_from 2 tris))"
    and fl: "fill_fluent_case Map.empty 1 (model_node_id model) eid region res'
       (model_titles model)
       (map (\<lambda>f. snd (snd (quad_geom model f))) (rows (cols_from 2 quads))
          @ map (\<lambda>f. snd (snd (tri_geom model f))) (rows (cols_from 2 tris)))
       (map (\<lambda>f. times_zero_plus 4 (fst (quad_geom model f))) (rows (cols_from 2 quads))
          @ map (\<lambda>f. times_zero_plus 3 (fst (tri_geom model f))) (rows (cols_from 2 tris)))
       = Inr (gui_form out, gui_cases out)"
    by blast
  note fd = get_filtered_data_Inr [OF f]
  note ce = create_elements_Inr [OF c]
  note ff = fill_fluent_case_Inr [OF fl [folded ln lnn]]
  from ff(4) e have c1: "gui_cases out 1 =
       Some (GuiResult 1 ''ElementID'' ''ElementID'' ''centroid''
               (IntArray (gui_element_ids out)) None None None, (0, ''ElementID''))"
    by simp
  from ff(5) fd(6) have c2: "gui_cases out 2 =
       Some (GuiResult 1 ''Region'' ''Region'' ''centroid''
               (IntArray (face_regions (rows quads) @ face_regions (rows tris)))
               None None None, (0, ''Region''))"
    by simp
  from fd(5) e have el: "gui_element_ids out = face_ids (rows quads) @ face_ids (rows tris)"
    by simp
  from fd(1,2) el la lc ln lnn c1 c2 ff(7-10) ce(2,3) show ?thesis
    by blast
qed

theorem quads_then_tris_order_witness:
  "\<exists>out. load_fluent_geometry unit_geom unit_geom to_inches to_psi False example_model no_filter
            = Inr (Some out) \<and>
     gui_element_ids out = [1, 2, 3, 4, 5] \<and>
     local_nnodes_array out = [Finite 4, Finite 4, Finite 3, Finite 3, Finite 3] \<and>
     local_area out = [Finite 1, Finite 1, Finite 1, Finite 1, Finite 1] \<and>
     n_nodes (grid_geometry out) = [4, 4, 3, 3, 3] \<and>
     cell_type (grid_geometry out) = [9, 9, 5, 5, 5]"
proof -
  from example_load obtain out where
    l: "load_fluent_geometry unit_geom unit_geom to_inches to_psi False example_model no_filter
          = Inr (Some out)"
    by blast
  from quads_then_tris_order [OF l] obtain tris quads where
    q: "rows quads = filter_faces (rows (model_quads example_model))
                    (cart3d_fluent_remove no_filter) (cart3d_fluent_include no_filter)"
    and t: "rows tris = filter_faces (rows (model_tris example_model))
                   (cart3d_fluent_remove no_filter) (cart3d_fluent_include no_filter)"
    and e: "gui_element_ids out = face_ids (rows quads) @ face_ids (rows tris)"
    and a: "local_area out =
       map (\<lambda>f. fst (unit_geom example_model f)) (rows (cols_from 2 quads))
         @ map (\<lambda>f. fst (unit_geom example_model f)) (rows (cols_from 2 tris))"
    and nn: "local_nnodes_array out =
       map (\<lambda>f. times_zero_plus 4 (fst (unit_geom example_model f))) (rows (cols_from 2 quads))
         @ map (\<lambda>f. times_zero_plus 3 (fst (unit_geom example_model f)))
             (rows (cols_from 2 tris))"
    and n: "n_nodes (grid_geometry out) = replicate (nrows quads) 4 @ replicate (nrows tris) 3"
    and c: "cell_type (grid_geometry out) = replicate (nrows quads) 9 @ replicate (nrows tris) 5"
    by blast
  from q have q': "rows quads = [[1, 1, 1, 2, 3, 4], [2, 1, 3, 4, 5, 6]]"
    by (simp add: example_model_def no_filter_def example_quads_def filter_faces_def
        keep_face_def)
  from t have t': "rows tris = [[3, 1, 1, 2, 3], [4, 1, 2, 3, 4], [5, 1, 4, 5, 6]]"
    by (simp add: example_model_def no_filter_def example_tris_def filter_faces_def
        keep_face_def)
  from e n c a nn have "gui_element_ids out = [1, 2, 3, 4, 5]"
    and "n_nodes (grid_geometry out) = [4, 4, 3, 3, 3]"
    and "cell_type (grid_geometry out) = [9, 9, 5, 5, 5]"
    and "local_area out = [Finite 1, Finite 1, Finite 1, Finite 1, Finite 1]"
    and "local_nnodes_array out = [Finite 4, Finite 4, Finite 3, Finite 3, Finite 3]"
    by (simp_all add: q' t' nrows_def cols_from_def unit_geom_def numeral_2_eq_2 numeral_3_eq_3)
  with l show ?thesis by blast
qed

text \<open>
  C9. On a successful load the points of the grid are the node coordinates converted from
  \<open>m\<close> to \<open>in\<close>, the first imported field is column 0 of the filtered results converted
  from \<open>Pa\<close> to \<open>psi\<close>, and every other imported field is its column of the filtered
  results, unchanged. The unit names are constants of the loader, whatever the settings.
\<close>

theorem unit_conversion_fixed:
  assumes "load_fluent_geometry_with gfd gacn cl cp coa skip model settings = Inr (Some out)"
  shows "\<exists>eid tris quads region res p0 p.
     gfd model (cart3d_fluent_remove settings) (cart3d_fluent_include settings)
       = Inr (eid, tris, quads, region, res) \<and>
     cl (model_xyz model) ''m'' ''in'' = Inr (grid_points out) \<and>
     column res 0 = Inr p0 \<and>
     cp p0 ''Pa'' ''psi'' = Inr p \<and>
     (\<forall>i < length (model_titles model) - 1. \<exists>sc.
        gui_cases out (8 + i) =
          Some (GuiResult 1 (model_titles model ! (i + 1)) (model_titles model ! (i + 1))
                  ''centroid'' (RealArray sc) None None None,
                (0, model_titles model ! (i + 1))) \<and>
        (i \<noteq> 0 \<longrightarrow> column res i = Inr sc) \<and>
        (i = 0 \<and> rect res \<and> length p = nrows res \<longrightarrow> sc = p))"
proof -
  from load_Inr [OF assms] obtain eid tris quads region res ta qa tc qc tn qn p0 p res' where
    g: "gfd model (cart3d_fluent_remove settings) (cart3d_fluent_include settings)
          = Inr (eid, tris, quads, region, res)"
    and c: "cl (model_xyz model) ''m'' ''in'' = Inr (grid_points out)"
    and p0: "column res 0 = Inr p0"
    and p: "cp p0 ''Pa'' ''psi'' = Inr p"
    and s: "set_column res 0 p = Inr res'"
    and f: "fill_fluent_case Map.empty 1 (model_node_id model) eid region res' (model_titles model)
      (qn @ tn) (map (times_zero_plus 4) qa @ map (times_zero_plus 3) ta)
      = Inr (gui_form out, gui_cases out)"
    by blast
  note ff = fill_fluent_case_Inr [OF f]
  have "\<exists>sc. gui_cases out (8 + i) =
          Some (GuiResult 1 (model_titles model ! (i + 1)) (model_titles model ! (i + 1))
                  ''centroid'' (RealArray sc) None None None,
                (0, model_titles model ! (i + 1))) \<and>
        (i \<noteq> 0 \<longrightarrow> column res i = Inr sc) \<and>
        (i = 0 \<and> rect res \<and> length p = nrows res \<longrightarrow> sc = p)"
    if i: "i < length (model_titles model) - 1" for i
  proof -
    let ?sc = "map (\<lambda>r. r ! i) (rows res')"
    from ff(11) i have e: "gui_cases out (8 + i) =
          Some (GuiResult 1 (model_titles model ! (i + 1)) (model_titles model ! (i + 1))
                  ''centroid'' (RealArray ?sc) None None None,
                (0, model_titles model ! (i + 1)))"
      by blast
    from ff(13) i have "i < ncols res'" by blast
    then have col: "column res' i = Inr ?sc" by (simp add: column_def)
    have o: "column res i = Inr ?sc" if "i \<noteq> 0"
      using set_column_other [OF s that] col by simp
    have z: "?sc = p" if "i = 0" "rect res" "length p = nrows res"
      using set_column_same [OF s that(2,3)] col that(1) by simp
    from e o z show ?thesis by blast
  qed
  with g c p0 p show ?thesis by blast
qed

theorem unit_conversion_fixed_witness:
  "\<exists>out. load_fluent_geometry unit_geom unit_geom to_inches to_psi False example_model no_filter
            = Inr (Some out) \<and>
     grid_points out = map (\<lambda>(x, y, z). (x / 0.0254, y / 0.0254, z / 0.0254))
                         (model_xyz example_model) \<and>
     gui_cases out 8 = Some (GuiResult 1 ''pressure'' ''pressure'' ''centroid''
                               (RealArray (map (\<lambda>p. p / 6894.76) [101325, 100000, 0, 50, 7]))
                               None None None, (0, ''pressure'')) \<and>
     gui_cases out 9 = Some (GuiResult 1 ''temperature'' ''temperature'' ''centroid''
                               (RealArray [300, 301, 302, 303, 304])
                               None None None, (0, ''temperature''))"
proof -
  from example_load obtain out where
    l: "load_fluent_geometry unit_geom unit_geom to_inches to_psi False example_model no_filter
          = Inr (Some out)"
    by blast
  from unit_conversion_fixed [OF l [unfolded load_fluent_geometry_def]]
  obtain eid tris quads region res p0 p where
    f: "get_filtered_data example_model (cart3d_fluent_remove no_filter)
          (cart3d_fluent_include no_filter) = Inr (eid, tris, quads, region, res)"
    and c: "to_inches (model_xyz example_model) ''m'' ''in'' = Inr (grid_points out)"
    and p0: "column res 0 = Inr p0"
    and p: "to_psi p0 ''Pa'' ''psi'' = Inr p"
    and i: "\<forall>i < length (model_titles example_model) - 1. \<exists>sc.
        gui_cases out (8 + i) =
          Some (GuiResult 1 (model_titles example_model ! (i + 1))
                  (model_titles example_model ! (i + 1))
                  ''centroid'' (RealArray sc) None None None,
                (0, model_titles example_model ! (i + 1))) \<and>
        (i \<noteq> 0 \<longrightarrow> column res i = Inr sc) \<and>
        (i = 0 \<and> rect res \<and> length p = nrows res \<longrightarrow> sc = p)"
    by blast
  from f have res: "res = example_results"
    by (simp add: no_filter_def example_filtered)
  from p0 have p0': "p0 = [101325, 100000, 0, 50, 7]"
    by (simp add: res example_column0)
  from p have p': "p = map (\<lambda>p. p / 6894.76) [101325, 100000, 0, 50, 7]"
    by (simp add: to_psi_def p0')
  have r: "rect res \<and> length p = nrows res"
    by (simp add: res p' rect_def example_results_def nrows_def)
  from c have g: "grid_points out = map (\<lambda>(x, y, z). (x / 0.0254, y / 0.0254, z / 0.0254))
                         (model_xyz example_model)"
    by (simp add: to_inches_def)
  from i [rule_format, of 0] r have c8: "gui_cases out 8 =
      Some (GuiResult 1 ''pressure'' ''pressure'' ''centroid'' (RealArray p) None None None,
            (0, ''pressure''))"
    by (auto simp: example_model_def example_titles_def)
  from i [rule_format, of 1] have c9: "gui_cases out 9 =
      Some (GuiResult 1 ''temperature'' ''temperature'' ''centroid''
              (RealArray [300, 301, 302, 303, 304]) None None None, (0, ''temperature''))"
    by (auto simp: example_model_def example_titles_def res column_def example_results_def)
  from l g c8 c9 show ?thesis
    unfolding p' by blast
qed




text \<open>
  C7. When the node-id array holds a duplicate id, the load fails, and the failure is fixed
  before any packing: it is the same whatever the packer is. When the stages before the
  check succeed, the failure is the bare assertion of the loader, which carries no message.
\<close>

theorem duplicate_node_ids_fail:
  assumes "\<not> distinct (model_node_id model)"
  shows "(\<exists>e. \<forall>coa. load_fluent_geometry_with gfd gacn cl cp coa False model settings = Inl e) \<and>
     (\<forall>eid tris quads region res g nodes p0 p res'.
        gfd model (cart3d_fluent_remove settings) (cart3d_fluent_include settings)
          = Inr (eid, tris, quads, region, res) \<and>
        gacn model tris quads = Inr g \<and>
        cl (model_xyz model) ''m'' ''in'' = Inr nodes \<and> nodes \<noteq> [] \<and>
        column res 0 = Inr p0 \<and> cp p0 ''Pa'' ''psi'' = Inr p \<and>
        set_column res 0 p = Inr res' \<and>
        length eid = length region \<longrightarrow>
        (\<forall>coa. load_fluent_geometry_with gfd gacn cl cp coa False model settings
                  = Inl (AssertionError NoMessage)))"
proof (intro conjI allI impI)
  show "\<exists>e. \<forall>coa. load_fluent_geometry_with gfd gacn cl cp coa False model settings = Inl e"
    by (rule load_duplicate_fails [OF assms])
next
  fix eid tris quads region res g nodes p0 p res' coa
  assume h: "gfd model (cart3d_fluent_remove settings) (cart3d_fluent_include settings)
          = Inr (eid, tris, quads, region, res) \<and>
        gacn model tris quads = Inr g \<and>
        cl (model_xyz model) ''m'' ''in'' = Inr nodes \<and> nodes \<noteq> [] \<and>
        column res 0 = Inr p0 \<and> cp p0 ''Pa'' ''psi'' = Inr p \<and>
        set_column res 0 p = Inr res' \<and>
        length eid = length region"
  then have 1: "gfd model (cart3d_fluent_remove settings) (cart3d_fluent_include settings)
          = Inr (eid, tris, quads, region, res)"
    and 2: "gacn model tris quads = Inr g"
    and 3: "cl (model_xyz model) ''m'' ''in'' = Inr nodes" and 4: "nodes \<noteq> []"
    and 5: "column res 0 = Inr p0" and 6: "cp p0 ''Pa'' ''psi'' = Inr p"
    and 7: "set_column res 0 p = Inr res'"
    and 8: "length eid = length region"
    by simp_all
  show "load_fluent_geometry_with gfd gacn cl cp coa False model settings
          = Inl (AssertionError NoMessage)"
    by (rule load_duplicate_error [where gfd = gfd and gacn = gacn and cl = cl and cp = cp,
          OF assms 1 2 3 4 5 6 7 8])
qed

theorem duplicate_node_ids_fail_witness:
  "\<not> distinct (model_node_id duplicate_model) \<and>
   (\<forall>coa. load_fluent_geometry_with get_filtered_data
            (get_area_centroid_normal unit_geom unit_geom) to_inches to_psi coa False
            duplicate_model no_filter = Inl (AssertionError NoMessage))"
proof -
  have d: "\<not> distinct (model_node_id duplicate_model)"
    by (simp add: duplicate_model_def)
  from duplicate_node_ids_fail [OF d, of get_filtered_data
      "get_area_centroid_normal unit_geom unit_geom" to_inches to_psi no_filter]
  obtain e where e: "\<forall>coa. load_fluent_geometry_with get_filtered_data
            (get_area_centroid_normal unit_geom unit_geom) to_inches to_psi coa False
            duplicate_model no_filter = Inl e"
    by blast
  from e duplicate_load have "e = AssertionError NoMessage"
    by (simp add: load_fluent_geometry_def)
  with e d show ?thesis by blast
qed

text \<open>
  The load of the model with the node id 5 given twice fails with an error that names no
  node id.
\<close>

theorem duplicate_node_ids_counterexample:
  "\<not> distinct (model_node_id duplicate_model) \<and>
   \<not> (\<exists>e. load_fluent_geometry unit_geom unit_geom to_inches to_psi False duplicate_model
             no_filter = Inl e \<and> 5 \<in> set (named_ids e))"
  by (simp add: duplicate_load) (simp add: duplicate_model_def)




end
